theory Spec2Isabelle
  imports Main "HOL-Library.Word" "HOL-Library.Monad_Syntax"
begin

unbundle bit_operations_syntax

section \<open>Data model of the MPU wrapper layer\<close>

text \<open>
  The wrappers run on 32-bit MPU ports: a handle (\<^verbatim>\<open>KernelObjectHandle_t\<close>,
  \<^verbatim>\<open>TaskHandle_t\<close>, \<^verbatim>\<open>QueueHandle_t\<close>, any other pointer argument) is a 32-bit
  word, \<^verbatim>\<open>UBaseType_t\<close> and \<^verbatim>\<open>TickType_t\<close> are 32-bit unsigned words. The cast
  \<^verbatim>\<open>( int32_t ) xHandle\<close> is \<open>sint\<close>, the cast \<^verbatim>\<open>( TaskHandle_t ) ( lIndex + INDEX_OFFSET )\<close>
  is \<open>word_of_int\<close>. An \<^verbatim>\<open>int32_t\<close> index, a \<^verbatim>\<open>BaseType_t\<close> status and a value of the
  enumeration \<^verbatim>\<open>eNotifyAction\<close> are given by their integer value; the indices the code computes lie between \<open>-1\<close> and the pool size
  plus one, so no index arithmetic wraps as long as the pool size is below \<open>2^31 - 1\<close>
  (\<open>pool_size_ok\<close> below).
\<close>

type_synonym KernelObjectHandle_t = "32 word"
type_synonym pointer_t = "32 word"
type_synonym UBaseType_t = "32 word"
type_synonym TickType_t = "32 word"
type_synonym BaseType_t = int
type_synonym eNotifyAction = int

abbreviation NULL :: "32 word" where "NULL \<equiv> 0"
abbreviation INDEX_OFFSET :: int where "INDEX_OFFSET \<equiv> 1"
abbreviation pdFAIL :: BaseType_t where "pdFAIL \<equiv> 0"
abbreviation pdPASS :: BaseType_t where "pdPASS \<equiv> 1"

text \<open>
  The kernel primitives and the port primitives are external to the layer. Every
  invocation is logged, in program order, with the arguments it was given; a kernel
  primitive that returns a value is a parameter of the adapter that forwards to it.
\<close>

datatype kernel_call =
    K_xTaskCreate pointer_t pointer_t "16 word" pointer_t UBaseType_t
  | K_xTaskCreateStatic pointer_t pointer_t "32 word" pointer_t UBaseType_t pointer_t pointer_t
  | K_vTaskAllocateMPURegions KernelObjectHandle_t pointer_t
  | K_vTaskDelete KernelObjectHandle_t
  | K_xQueueGenericSend KernelObjectHandle_t pointer_t TickType_t BaseType_t
  | K_xQueueSelectFromSet KernelObjectHandle_t TickType_t
  | K_xTaskGetCurrentTaskHandle
  | K_xTaskAbortDelay KernelObjectHandle_t
  | K_uxTaskPriorityGet KernelObjectHandle_t
  | K_xTaskGenericNotify KernelObjectHandle_t UBaseType_t "32 word" eNotifyAction pointer_t
  | K_xTaskResumeFromISR KernelObjectHandle_t
  | K_xTaskGenericNotifyFromISR KernelObjectHandle_t UBaseType_t "32 word" eNotifyAction
      pointer_t pointer_t
  | K_vTaskGenericNotifyGiveFromISR KernelObjectHandle_t UBaseType_t pointer_t
  | K_xTaskGetIdleTaskHandle
  | K_xTaskGetHandle pointer_t
  | K_xQueueGenericCreate UBaseType_t UBaseType_t "8 word"
  | K_xQueueGetMutexHolder KernelObjectHandle_t
  | K_xQueueSelectFromSetFromISR KernelObjectHandle_t
  | K_xTimerGenericCommand KernelObjectHandle_t BaseType_t TickType_t pointer_t TickType_t
  | K_xStreamBufferGenericCreate "32 word" "32 word" BaseType_t pointer_t pointer_t
  | K_xStreamBufferGenericCreateStatic "32 word" "32 word" BaseType_t pointer_t pointer_t
      pointer_t pointer_t
  | K_xTimerGetTimerDaemonTaskHandle
  | K_vStreamBufferDelete KernelObjectHandle_t

datatype event =
    RaisePrivilege
  | ResetPrivilege
  | MemoryBarrier
  | SuspendAll
  | ResumeAll
  | EnterCritical
  | ExitCritical
  | Kernel kernel_call

text \<open>
  The state the wrappers act on: the static array \<^verbatim>\<open>xKernelObjectHandlePool\<close> (a list
  whose length is \<^verbatim>\<open>configPROTECTED_KERNEL_OBJECT_HANDLE_POOL_SIZE\<close>), the processor's
  privilege level as \<^verbatim>\<open>portIS_PRIVILEGED\<close> reports it, and the log of primitive
  invocations.
\<close>

record mpu_state =
  xKernelObjectHandlePool :: "KernelObjectHandle_t list"
  privileged :: bool
  trace :: "event list"

definition configPROTECTED_KERNEL_OBJECT_HANDLE_POOL_SIZE :: "mpu_state \<Rightarrow> int" where
  "configPROTECTED_KERNEL_OBJECT_HANDLE_POOL_SIZE s = int (length (xKernelObjectHandlePool s))"

definition pool_size_ok :: "mpu_state \<Rightarrow> bool" where
  "pool_size_ok s \<longleftrightarrow>
     0 < length (xKernelObjectHandlePool s) \<and> length (xKernelObjectHandlePool s) < 2 ^ 31 - 1"

definition log_event :: "event \<Rightarrow> mpu_state \<Rightarrow> mpu_state" where
  "log_event e s = s\<lparr>trace := trace s @ [e]\<rparr>"

definition portIS_PRIVILEGED :: "mpu_state \<Rightarrow> bool" where
  "portIS_PRIVILEGED s = privileged s"

definition portRAISE_PRIVILEGE :: "mpu_state \<Rightarrow> mpu_state" where
  "portRAISE_PRIVILEGE s = log_event RaisePrivilege (s\<lparr>privileged := True\<rparr>)"

definition portRESET_PRIVILEGE :: "mpu_state \<Rightarrow> mpu_state" where
  "portRESET_PRIVILEGE s = log_event ResetPrivilege (s\<lparr>privileged := False\<rparr>)"

definition portMEMORY_BARRIER :: "mpu_state \<Rightarrow> mpu_state" where
  "portMEMORY_BARRIER s = log_event MemoryBarrier s"

definition vTaskSuspendAll :: "mpu_state \<Rightarrow> mpu_state" where
  "vTaskSuspendAll s = log_event SuspendAll s"

definition xTaskResumeAll :: "mpu_state \<Rightarrow> mpu_state" where
  "xTaskResumeAll s = log_event ResumeAll s"

definition taskENTER_CRITICAL :: "mpu_state \<Rightarrow> mpu_state" where
  "taskENTER_CRITICAL s = log_event EnterCritical s"

definition taskEXIT_CRITICAL :: "mpu_state \<Rightarrow> mpu_state" where
  "taskEXIT_CRITICAL s = log_event ExitCritical s"

definition call_kernel :: "kernel_call \<Rightarrow> mpu_state \<Rightarrow> mpu_state" where
  "call_kernel c s = log_event (Kernel c) s"

text \<open>The kernel calls of a log, and how often a port primitive occurs in it.\<close>

fun kernel_calls :: "event list \<Rightarrow> kernel_call list" where
  "kernel_calls [] = []"
| "kernel_calls (Kernel c # es) = c # kernel_calls es"
| "kernel_calls (e # es) = kernel_calls es"

definition raise_count :: "mpu_state \<Rightarrow> nat" where
  "raise_count s = count_list (trace s) RaisePrivilege"

definition reset_count :: "mpu_state \<Rightarrow> nat" where
  "reset_count s = count_list (trace s) ResetPrivilege"

section \<open>Handle pool\<close>

text \<open>
  \<^verbatim>\<open>MPU_GetFreeIndexInHandlePool\<close>: the \<^verbatim>\<open>for\<close> loop scans upwards from \<open>i\<close>, marks the
  first \<^verbatim>\<open>NULL\<close> slot with \<^verbatim>\<open>( KernelObjectHandle_t ) ( ~0 )\<close> and breaks; \<open>-1\<close> when the
  scan reaches the end.
\<close>

function GetFreeIndex_loop ::
  "KernelObjectHandle_t list \<Rightarrow> nat \<Rightarrow> KernelObjectHandle_t list \<times> int" where
  "GetFreeIndex_loop pool i =
     (if i < length pool then
        (if pool ! i = NULL then (pool[i := - 1], int i)
         else GetFreeIndex_loop pool (i + 1))
      else (pool, - 1))"
  by pat_completeness auto
termination
  by (relation "measure (\<lambda>(pool, i). length pool - i)") auto

declare GetFreeIndex_loop.simps [simp del]

definition MPU_GetFreeIndexInHandlePool :: "mpu_state \<Rightarrow> int \<times> mpu_state" where
  "MPU_GetFreeIndexInHandlePool s =
     (let s1 = vTaskSuspendAll s;
          (pool', lFreeIndex) = GetFreeIndex_loop (xKernelObjectHandlePool s1) 0;
          s2 = s1\<lparr>xKernelObjectHandlePool := pool'\<rparr>;
          s3 = xTaskResumeAll s2
      in (lFreeIndex, s3))"

text \<open>
  \<^verbatim>\<open>configASSERT\<close> guards every indexed access of the pool. A failed assertion is
  fatal: the operation yields \<open>None\<close>, and so does every adapter that reaches it. An
  access outside the array is therefore never a value of the model.
\<close>

definition MPU_SetIndexFreeInHandlePool :: "int \<Rightarrow> mpu_state \<Rightarrow> mpu_state option" where
  "MPU_SetIndexFreeInHandlePool lIndex s =
     (if lIndex \<ge> 0 \<and> lIndex < configPROTECTED_KERNEL_OBJECT_HANDLE_POOL_SIZE s then
        (let s1 = taskENTER_CRITICAL s;
             s2 = s1\<lparr>xKernelObjectHandlePool := (xKernelObjectHandlePool s1)[nat lIndex := NULL]\<rparr>
         in Some (taskEXIT_CRITICAL s2))
      else None)"

function GetIndexForHandle_loop :: "KernelObjectHandle_t list \<Rightarrow> KernelObjectHandle_t \<Rightarrow> nat \<Rightarrow> int" where
  "GetIndexForHandle_loop pool xHandle i =
     (if i < length pool then
        (if pool ! i = xHandle then int i
         else GetIndexForHandle_loop pool xHandle (i + 1))
      else - 1)"
  by pat_completeness auto
termination
  by (relation "measure (\<lambda>(pool, xHandle, i). length pool - i)") auto

declare GetIndexForHandle_loop.simps [simp del]

definition MPU_GetIndexForHandle :: "KernelObjectHandle_t \<Rightarrow> mpu_state \<Rightarrow> int option" where
  "MPU_GetIndexForHandle xHandle s =
     (if xHandle \<noteq> NULL then Some (GetIndexForHandle_loop (xKernelObjectHandlePool s) xHandle 0)
      else None)"

definition MPU_StoreHandleAtIndex ::
  "int \<Rightarrow> KernelObjectHandle_t \<Rightarrow> mpu_state \<Rightarrow> mpu_state option" where
  "MPU_StoreHandleAtIndex lIndex xHandle s =
     (if lIndex \<ge> 0 \<and> lIndex < configPROTECTED_KERNEL_OBJECT_HANDLE_POOL_SIZE s then
        Some (s\<lparr>xKernelObjectHandlePool := (xKernelObjectHandlePool s)[nat lIndex := xHandle]\<rparr>)
      else None)"

definition MPU_GetHandleAtIndex :: "int \<Rightarrow> mpu_state \<Rightarrow> KernelObjectHandle_t option" where
  "MPU_GetHandleAtIndex lIndex s =
     (if lIndex \<ge> 0 \<and> lIndex < configPROTECTED_KERNEL_OBJECT_HANDLE_POOL_SIZE s then
        Some (xKernelObjectHandlePool s ! nat lIndex)
      else None)"

section \<open>Task adapters\<close>

text \<open>
  \<^verbatim>\<open>MPU_vTaskDelete\<close>, branch by branch as in the source: a non-\<^verbatim>\<open>NULL\<close> handle is
  range-checked, translated, deleted and its slot released; a \<^verbatim>\<open>NULL\<close> handle is
  forwarded as it is. In the unprivileged \<^verbatim>\<open>NULL\<close> branch the source invokes
  \<^verbatim>\<open>portRAISE_PRIVILEGE\<close> both before and after the kernel call.
\<close>

definition MPU_vTaskDelete :: "KernelObjectHandle_t \<Rightarrow> mpu_state \<Rightarrow> mpu_state option" where
  "MPU_vTaskDelete pxTaskToDelete s =
     (if pxTaskToDelete \<noteq> NULL then
        (if \<not> portIS_PRIVILEGED s then
           do {
             let s1 = portMEMORY_BARRIER (portRAISE_PRIVILEGE s);
             let lIndex = sint pxTaskToDelete;
             s2 \<leftarrow> (if lIndex \<ge> INDEX_OFFSET \<and>
                       lIndex < configPROTECTED_KERNEL_OBJECT_HANDLE_POOL_SIZE s1 + INDEX_OFFSET then
                      do {
                        xInternalTaskHandle \<leftarrow> MPU_GetHandleAtIndex (lIndex - INDEX_OFFSET) s1;
                        s' \<leftarrow> MPU_SetIndexFreeInHandlePool (lIndex - INDEX_OFFSET)
                                (call_kernel (K_vTaskDelete xInternalTaskHandle) s1);
                        Some (portMEMORY_BARRIER s')
                      }
                    else Some s1);
             Some (portMEMORY_BARRIER (portRESET_PRIVILEGE s2))
           }
         else
           do {
             let lIndex = sint pxTaskToDelete;
             (if lIndex \<ge> INDEX_OFFSET \<and>
                 lIndex < configPROTECTED_KERNEL_OBJECT_HANDLE_POOL_SIZE s + INDEX_OFFSET then
                do {
                  xInternalTaskHandle \<leftarrow> MPU_GetHandleAtIndex (lIndex - INDEX_OFFSET) s;
                  MPU_SetIndexFreeInHandlePool (lIndex - INDEX_OFFSET)
                    (call_kernel (K_vTaskDelete xInternalTaskHandle) s)
                }
              else Some s)
           })
      else
        (if \<not> portIS_PRIVILEGED s then
           do {
             let s1 = portMEMORY_BARRIER (portRAISE_PRIVILEGE s);
             let s2 = portMEMORY_BARRIER (call_kernel (K_vTaskDelete pxTaskToDelete) s1);
             Some (portMEMORY_BARRIER (portRAISE_PRIVILEGE s2))
           }
         else Some (call_kernel (K_vTaskDelete pxTaskToDelete) s)))"

text \<open>
  \<^verbatim>\<open>MPU_xTaskCreate\<close>. The kernel's \<^verbatim>\<open>xTaskCreate\<close> is a parameter: given the
  arguments forwarded to it, it yields its status and the value it leaves in
  \<^verbatim>\<open>xInternalTaskHandle\<close> (\<^verbatim>\<open>NULL\<close> when it created nothing). \<^verbatim>\<open>portPRIVILEGE_BIT\<close> is
  a constant of the port layer and a parameter as well. The result is the returned
  status, the value written through \<^verbatim>\<open>pxCreatedTask\<close> (\<open>None\<close> when nothing is written)
  and the new state.
\<close>

definition MPU_xTaskCreate ::
  "(pointer_t \<Rightarrow> pointer_t \<Rightarrow> 16 word \<Rightarrow> pointer_t \<Rightarrow> UBaseType_t
      \<Rightarrow> BaseType_t \<times> KernelObjectHandle_t)
   \<Rightarrow> UBaseType_t
   \<Rightarrow> pointer_t \<Rightarrow> pointer_t \<Rightarrow> 16 word \<Rightarrow> pointer_t \<Rightarrow> UBaseType_t \<Rightarrow> mpu_state
   \<Rightarrow> (BaseType_t \<times> KernelObjectHandle_t option \<times> mpu_state) option" where
  "MPU_xTaskCreate xTaskCreate portPRIVILEGE_BIT pvTaskCode pcName usStackDepth pvParameters
       uxPriority s =
     (if \<not> portIS_PRIVILEGED s then
        do {
          let s1 = portMEMORY_BARRIER (portRAISE_PRIVILEGE s);
          let uxPriority = uxPriority AND NOT portPRIVILEGE_BIT;
          let s2 = portMEMORY_BARRIER s1;
          let (lIndex, s3) = MPU_GetFreeIndexInHandlePool s2;
          (xReturn, pxCreatedTask, s4) \<leftarrow>
            (if lIndex \<noteq> - 1 then
               do {
                 let (xReturn, xInternalTaskHandle) =
                       xTaskCreate pvTaskCode pcName usStackDepth pvParameters uxPriority;
                 let sk = call_kernel (K_xTaskCreate pvTaskCode pcName usStackDepth pvParameters
                                    uxPriority) s3;
                 (pxCreatedTask, s') \<leftarrow>
                   (if xInternalTaskHandle \<noteq> NULL then
                      do {
                        s' \<leftarrow> MPU_StoreHandleAtIndex lIndex xInternalTaskHandle sk;
                        Some (Some (word_of_int (lIndex + INDEX_OFFSET)), s')
                      }
                    else
                      do {
                        s' \<leftarrow> MPU_SetIndexFreeInHandlePool lIndex sk;
                        Some (None, s')
                      });
                 Some (xReturn, pxCreatedTask, portMEMORY_BARRIER s')
               }
             else Some (pdFAIL, None, s3));
          Some (xReturn, pxCreatedTask, portMEMORY_BARRIER (portRESET_PRIVILEGE s4))
        }
      else
        do {
          let (lIndex, s3) = MPU_GetFreeIndexInHandlePool s;
          (if lIndex \<noteq> - 1 then
             do {
               let (xReturn, xInternalTaskHandle) =
                     xTaskCreate pvTaskCode pcName usStackDepth pvParameters uxPriority;
               let sk = call_kernel (K_xTaskCreate pvTaskCode pcName usStackDepth pvParameters
                                  uxPriority) s3;
               (pxCreatedTask, s') \<leftarrow>
                 (if xInternalTaskHandle \<noteq> NULL then
                    do {
                      s' \<leftarrow> MPU_StoreHandleAtIndex lIndex xInternalTaskHandle sk;
                      Some (Some (word_of_int (lIndex + INDEX_OFFSET)), s')
                    }
                  else
                    do {
                      s' \<leftarrow> MPU_SetIndexFreeInHandlePool lIndex sk;
                      Some (None, s')
                    });
               Some (xReturn, pxCreatedTask, s')
             }
           else Some (pdFAIL, None, s3))
        })"

text \<open>
  \<^verbatim>\<open>MPU_xTaskCreateStatic\<close>: the kernel's \<^verbatim>\<open>xTaskCreateStatic\<close> returns the internal
  handle; the adapter returns the external one, \<^verbatim>\<open>NULL\<close> by default.
\<close>

definition MPU_xTaskCreateStatic ::
  "(pointer_t \<Rightarrow> pointer_t \<Rightarrow> 32 word \<Rightarrow> pointer_t \<Rightarrow> UBaseType_t \<Rightarrow> pointer_t \<Rightarrow> pointer_t
      \<Rightarrow> KernelObjectHandle_t)
   \<Rightarrow> UBaseType_t
   \<Rightarrow> pointer_t \<Rightarrow> pointer_t \<Rightarrow> 32 word \<Rightarrow> pointer_t \<Rightarrow> UBaseType_t \<Rightarrow> pointer_t \<Rightarrow> pointer_t
   \<Rightarrow> mpu_state \<Rightarrow> (KernelObjectHandle_t \<times> mpu_state) option" where
  "MPU_xTaskCreateStatic xTaskCreateStatic portPRIVILEGE_BIT pxTaskCode pcName ulStackDepth
       pvParameters uxPriority puxStackBuffer pxTaskBuffer s =
     (if \<not> portIS_PRIVILEGED s then
        do {
          let s1 = portMEMORY_BARRIER (portRAISE_PRIVILEGE s);
          let uxPriority = uxPriority AND NOT portPRIVILEGE_BIT;
          let s2 = portMEMORY_BARRIER s1;
          let (lIndex, s3) = MPU_GetFreeIndexInHandlePool s2;
          (xExternalTaskHandle, s4) \<leftarrow>
            (if lIndex \<noteq> - 1 then
               do {
                 let xInternalTaskHandle =
                       xTaskCreateStatic pxTaskCode pcName ulStackDepth pvParameters uxPriority
                         puxStackBuffer pxTaskBuffer;
                 let sk = call_kernel (K_xTaskCreateStatic pxTaskCode pcName ulStackDepth pvParameters
                                    uxPriority puxStackBuffer pxTaskBuffer) s3;
                 (xExternalTaskHandle, s') \<leftarrow>
                   (if xInternalTaskHandle \<noteq> NULL then
                      do {
                        s' \<leftarrow> MPU_StoreHandleAtIndex lIndex xInternalTaskHandle sk;
                        Some (word_of_int (lIndex + INDEX_OFFSET), s')
                      }
                    else
                      do {
                        s' \<leftarrow> MPU_SetIndexFreeInHandlePool lIndex sk;
                        Some (NULL, s')
                      });
                 Some (xExternalTaskHandle, portMEMORY_BARRIER s')
               }
             else Some (NULL, s3));
          Some (xExternalTaskHandle, portMEMORY_BARRIER (portRESET_PRIVILEGE s4))
        }
      else
        do {
          let (lIndex, s3) = MPU_GetFreeIndexInHandlePool s;
          (if lIndex \<noteq> - 1 then
             do {
               let xInternalTaskHandle =
                     xTaskCreateStatic pxTaskCode pcName ulStackDepth pvParameters uxPriority
                       puxStackBuffer pxTaskBuffer;
               let sk = call_kernel (K_xTaskCreateStatic pxTaskCode pcName ulStackDepth pvParameters
                                  uxPriority puxStackBuffer pxTaskBuffer) s3;
               (if xInternalTaskHandle \<noteq> NULL then
                  do {
                    s' \<leftarrow> MPU_StoreHandleAtIndex lIndex xInternalTaskHandle sk;
                    Some (word_of_int (lIndex + INDEX_OFFSET), s')
                  }
                else
                  do {
                    s' \<leftarrow> MPU_SetIndexFreeInHandlePool lIndex sk;
                    Some (NULL, s')
                  })
             }
           else Some (NULL, s3))
        })"

text \<open>\<^verbatim>\<open>MPU_vTaskAllocateMPURegions\<close>: no privilege gate in the source.\<close>

definition MPU_vTaskAllocateMPURegions ::
  "KernelObjectHandle_t \<Rightarrow> pointer_t \<Rightarrow> mpu_state \<Rightarrow> mpu_state option" where
  "MPU_vTaskAllocateMPURegions xTaskToModify xRegions s =
     (if xTaskToModify \<noteq> NULL then
        do {
          let lIndex = sint xTaskToModify;
          (if lIndex \<ge> INDEX_OFFSET \<and>
              lIndex < configPROTECTED_KERNEL_OBJECT_HANDLE_POOL_SIZE s + INDEX_OFFSET then
             do {
               xInternalTaskHandle \<leftarrow> MPU_GetHandleAtIndex (lIndex - INDEX_OFFSET) s;
               Some (call_kernel (K_vTaskAllocateMPURegions xInternalTaskHandle xRegions) s)
             }
           else Some s)
        }
      else Some (call_kernel (K_vTaskAllocateMPURegions xTaskToModify xRegions) s))"


section \<open>Queue adapters\<close>

text \<open>
  \<^verbatim>\<open>MPU_xQueueGenericSend\<close> of the file with the task handle pool. The kernel's
  \<^verbatim>\<open>xQueueGenericSend\<close> is a parameter.
\<close>

definition MPU_xQueueGenericSend ::
  "(KernelObjectHandle_t \<Rightarrow> pointer_t \<Rightarrow> TickType_t \<Rightarrow> BaseType_t \<Rightarrow> BaseType_t)
   \<Rightarrow> KernelObjectHandle_t \<Rightarrow> pointer_t \<Rightarrow> TickType_t \<Rightarrow> BaseType_t \<Rightarrow> mpu_state
   \<Rightarrow> (BaseType_t \<times> mpu_state) option" where
  "MPU_xQueueGenericSend xQueueGenericSend xQueue pvItemToQueue xTicksToWait xCopyPosition s =
     (if \<not> portIS_PRIVILEGED s then
        do {
          let s1 = portMEMORY_BARRIER (portRAISE_PRIVILEGE s);
          let lIndex = sint xQueue;
          (xReturn, s2) \<leftarrow>
            (if lIndex \<ge> INDEX_OFFSET \<and>
                lIndex < configPROTECTED_KERNEL_OBJECT_HANDLE_POOL_SIZE s1 + INDEX_OFFSET then
               do {
                 xInternalQueueHandle \<leftarrow> MPU_GetHandleAtIndex (lIndex - INDEX_OFFSET) s1;
                 let xReturn = xQueueGenericSend xInternalQueueHandle pvItemToQueue xTicksToWait
                                 xCopyPosition;
                 let sk = call_kernel (K_xQueueGenericSend xInternalQueueHandle pvItemToQueue
                                    xTicksToWait xCopyPosition) s1;
                 Some (xReturn, portMEMORY_BARRIER sk)
               }
             else Some (pdFAIL, s1));
          Some (xReturn, portMEMORY_BARRIER (portRESET_PRIVILEGE s2))
        }
      else
        do {
          let lIndex = sint xQueue;
          (if lIndex \<ge> INDEX_OFFSET \<and>
              lIndex < configPROTECTED_KERNEL_OBJECT_HANDLE_POOL_SIZE s + INDEX_OFFSET then
             do {
               xInternalQueueHandle \<leftarrow> MPU_GetHandleAtIndex (lIndex - INDEX_OFFSET) s;
               let xReturn = xQueueGenericSend xInternalQueueHandle pvItemToQueue xTicksToWait
                               xCopyPosition;
               let sk = call_kernel (K_xQueueGenericSend xInternalQueueHandle pvItemToQueue
                                  xTicksToWait xCopyPosition) s;
               Some (xReturn, sk)
             }
           else Some (pdFAIL, s))
        })"


section \<open>The copy in portable/Common/mpu\_wrappers.c\<close>

text \<open>
  \<^verbatim>\<open>portable/Common/mpu_wrappers.c\<close> has its own handle pool, its own
  \<^verbatim>\<open>MPU_GetHandleAtIndex\<close> and its own \<^verbatim>\<open>MPU_xQueueGenericSend\<close>; both are embedded
  from that file.
\<close>

definition MPU_GetHandleAtIndex_common :: "int \<Rightarrow> mpu_state \<Rightarrow> KernelObjectHandle_t option" where
  "MPU_GetHandleAtIndex_common lIndex s =
     (if lIndex \<ge> 0 \<and> lIndex < configPROTECTED_KERNEL_OBJECT_HANDLE_POOL_SIZE s then
        Some (xKernelObjectHandlePool s ! nat lIndex)
      else None)"

definition MPU_xQueueGenericSend_common ::
  "(KernelObjectHandle_t \<Rightarrow> pointer_t \<Rightarrow> TickType_t \<Rightarrow> BaseType_t \<Rightarrow> BaseType_t)
   \<Rightarrow> KernelObjectHandle_t \<Rightarrow> pointer_t \<Rightarrow> TickType_t \<Rightarrow> BaseType_t \<Rightarrow> mpu_state
   \<Rightarrow> (BaseType_t \<times> mpu_state) option" where
  "MPU_xQueueGenericSend_common xQueueGenericSend xQueue pvItemToQueue xTicksToWait
       xCopyPosition s =
     (if \<not> portIS_PRIVILEGED s then
        do {
          let s1 = portMEMORY_BARRIER (portRAISE_PRIVILEGE s);
          let lIndex = sint xQueue;
          (xReturn, s2) \<leftarrow>
            (if lIndex \<ge> INDEX_OFFSET \<and>
                lIndex < configPROTECTED_KERNEL_OBJECT_HANDLE_POOL_SIZE s1 + INDEX_OFFSET then
               do {
                 xInternalQueueHandle \<leftarrow> MPU_GetHandleAtIndex_common (lIndex - INDEX_OFFSET) s1;
                 let xReturn = xQueueGenericSend xInternalQueueHandle pvItemToQueue xTicksToWait
                                 xCopyPosition;
                 let sk = call_kernel (K_xQueueGenericSend xInternalQueueHandle pvItemToQueue
                                    xTicksToWait xCopyPosition) s1;
                 Some (xReturn, portMEMORY_BARRIER sk)
               }
             else Some (pdFAIL, s1));
          Some (xReturn, portMEMORY_BARRIER (portRESET_PRIVILEGE s2))
        }
      else
        do {
          let lIndex = sint xQueue;
          (if lIndex \<ge> INDEX_OFFSET \<and>
              lIndex < configPROTECTED_KERNEL_OBJECT_HANDLE_POOL_SIZE s + INDEX_OFFSET then
             do {
               xInternalQueueHandle \<leftarrow> MPU_GetHandleAtIndex_common (lIndex - INDEX_OFFSET) s;
               let xReturn = xQueueGenericSend xInternalQueueHandle pvItemToQueue xTicksToWait
                               xCopyPosition;
               let sk = call_kernel (K_xQueueGenericSend xInternalQueueHandle pvItemToQueue
                                  xTicksToWait xCopyPosition) s;
               Some (xReturn, sk)
             }
           else Some (pdFAIL, s))
        })"

section \<open>Further task adapters\<close>

text \<open>
  \<^verbatim>\<open>MPU_xTaskAbortDelay\<close>: a value-returning task adapter with a \<^verbatim>\<open>NULL\<close> branch; its
  result starts as \<^verbatim>\<open>pdFAIL\<close>.
\<close>

definition MPU_xTaskAbortDelay ::
  "(KernelObjectHandle_t \<Rightarrow> BaseType_t) \<Rightarrow> KernelObjectHandle_t \<Rightarrow> mpu_state
   \<Rightarrow> (BaseType_t \<times> mpu_state) option" where
  "MPU_xTaskAbortDelay xTaskAbortDelay xTask s =
     (if xTask \<noteq> NULL then
        (if \<not> portIS_PRIVILEGED s then
           do {
             let s1 = portMEMORY_BARRIER (portRAISE_PRIVILEGE s);
             let lIndex = sint xTask;
             (xReturn, s2) \<leftarrow>
               (if lIndex \<ge> INDEX_OFFSET \<and>
                   lIndex < configPROTECTED_KERNEL_OBJECT_HANDLE_POOL_SIZE s1 + INDEX_OFFSET then
                  do {
                    xInternalTaskHandle \<leftarrow> MPU_GetHandleAtIndex (lIndex - INDEX_OFFSET) s1;
                    let xReturn = xTaskAbortDelay xInternalTaskHandle;
                    let sk = call_kernel (K_xTaskAbortDelay xInternalTaskHandle) s1;
                    Some (xReturn, portMEMORY_BARRIER sk)
                  }
                else Some (pdFAIL, s1));
             Some (xReturn, portMEMORY_BARRIER (portRESET_PRIVILEGE s2))
           }
         else
           do {
             let lIndex = sint xTask;
             (if lIndex \<ge> INDEX_OFFSET \<and>
                 lIndex < configPROTECTED_KERNEL_OBJECT_HANDLE_POOL_SIZE s + INDEX_OFFSET then
                do {
                  xInternalTaskHandle \<leftarrow> MPU_GetHandleAtIndex (lIndex - INDEX_OFFSET) s;
                  let xReturn = xTaskAbortDelay xInternalTaskHandle;
                  let sk = call_kernel (K_xTaskAbortDelay xInternalTaskHandle) s;
                  Some (xReturn, sk)
                }
              else Some (pdFAIL, s))
           })
      else
        (if \<not> portIS_PRIVILEGED s then
           do {
             let s1 = portMEMORY_BARRIER (portRAISE_PRIVILEGE s);
             let xReturn = xTaskAbortDelay xTask;
             let s2 = portMEMORY_BARRIER (call_kernel (K_xTaskAbortDelay xTask) s1);
             Some (xReturn, portMEMORY_BARRIER (portRESET_PRIVILEGE s2))
           }
         else Some (xTaskAbortDelay xTask, call_kernel (K_xTaskAbortDelay xTask) s)))"

text \<open>
  \<^verbatim>\<open>MPU_uxTaskPriorityGet\<close>: the source declares \<^verbatim>\<open>UBaseType_t uxReturn;\<close> without a
  value. The result is \<open>None\<close> as long as \<^verbatim>\<open>uxReturn\<close> has not been assigned, and
  \<open>Some\<close> of the assigned value afterwards.
\<close>

definition MPU_uxTaskPriorityGet ::
  "(KernelObjectHandle_t \<Rightarrow> UBaseType_t) \<Rightarrow> KernelObjectHandle_t \<Rightarrow> mpu_state
   \<Rightarrow> (UBaseType_t option \<times> mpu_state) option" where
  "MPU_uxTaskPriorityGet uxTaskPriorityGet pxTask s =
     (if pxTask \<noteq> NULL then
        (if \<not> portIS_PRIVILEGED s then
           do {
             let s1 = portMEMORY_BARRIER (portRAISE_PRIVILEGE s);
             let lIndex = sint pxTask;
             (uxReturn, s2) \<leftarrow>
               (if lIndex \<ge> INDEX_OFFSET \<and>
                   lIndex < configPROTECTED_KERNEL_OBJECT_HANDLE_POOL_SIZE s1 + INDEX_OFFSET then
                  do {
                    xInternalTaskHandle \<leftarrow> MPU_GetHandleAtIndex (lIndex - INDEX_OFFSET) s1;
                    let uxReturn = uxTaskPriorityGet xInternalTaskHandle;
                    let sk = call_kernel (K_uxTaskPriorityGet xInternalTaskHandle) s1;
                    Some (Some uxReturn, portMEMORY_BARRIER sk)
                  }
                else Some (None, s1));
             Some (uxReturn, portMEMORY_BARRIER (portRESET_PRIVILEGE s2))
           }
         else
           do {
             let lIndex = sint pxTask;
             (if lIndex \<ge> INDEX_OFFSET \<and>
                 lIndex < configPROTECTED_KERNEL_OBJECT_HANDLE_POOL_SIZE s + INDEX_OFFSET then
                do {
                  xInternalTaskHandle \<leftarrow> MPU_GetHandleAtIndex (lIndex - INDEX_OFFSET) s;
                  let uxReturn = uxTaskPriorityGet xInternalTaskHandle;
                  let sk = call_kernel (K_uxTaskPriorityGet xInternalTaskHandle) s;
                  Some (Some uxReturn, sk)
                }
              else Some (None, s))
           })
      else
        (if \<not> portIS_PRIVILEGED s then
           do {
             let s1 = portMEMORY_BARRIER (portRAISE_PRIVILEGE s);
             let uxReturn = uxTaskPriorityGet pxTask;
             let s2 = portMEMORY_BARRIER (call_kernel (K_uxTaskPriorityGet pxTask) s1);
             Some (Some uxReturn, portMEMORY_BARRIER (portRESET_PRIVILEGE s2))
           }
         else Some (Some (uxTaskPriorityGet pxTask), call_kernel (K_uxTaskPriorityGet pxTask) s)))"

text \<open>
  The task adapters without a \<^verbatim>\<open>NULL\<close> branch: \<^verbatim>\<open>MPU_xTaskGenericNotify\<close>,
  \<^verbatim>\<open>MPU_xTaskResumeFromISR\<close>, \<^verbatim>\<open>MPU_xTaskGenericNotifyFromISR\<close> and
  \<^verbatim>\<open>MPU_vTaskGenericNotifyGiveFromISR\<close>. Each range-checks the handle it is given.
\<close>

definition MPU_xTaskGenericNotify ::
  "(KernelObjectHandle_t \<Rightarrow> UBaseType_t \<Rightarrow> 32 word \<Rightarrow> eNotifyAction \<Rightarrow> pointer_t \<Rightarrow> BaseType_t)
   \<Rightarrow> KernelObjectHandle_t \<Rightarrow> UBaseType_t \<Rightarrow> 32 word \<Rightarrow> eNotifyAction \<Rightarrow> pointer_t
   \<Rightarrow> mpu_state \<Rightarrow> (BaseType_t \<times> mpu_state) option" where
  "MPU_xTaskGenericNotify xTaskGenericNotify xTaskToNotify uxIndexToNotify ulValue eAction
       pulPreviousNotificationValue s =
     (if \<not> portIS_PRIVILEGED s then
        do {
          let s1 = portMEMORY_BARRIER (portRAISE_PRIVILEGE s);
          let lIndex = sint xTaskToNotify;
          (xReturn, s2) \<leftarrow>
            (if lIndex \<ge> INDEX_OFFSET \<and>
                lIndex < configPROTECTED_KERNEL_OBJECT_HANDLE_POOL_SIZE s1 + INDEX_OFFSET then
               do {
                 xInternalTaskHandle \<leftarrow> MPU_GetHandleAtIndex (lIndex - INDEX_OFFSET) s1;
                 let xReturn = xTaskGenericNotify xInternalTaskHandle uxIndexToNotify ulValue
                                 eAction pulPreviousNotificationValue;
                 let sk = call_kernel (K_xTaskGenericNotify xInternalTaskHandle uxIndexToNotify
                                         ulValue eAction pulPreviousNotificationValue) s1;
                 Some (xReturn, portMEMORY_BARRIER sk)
               }
             else Some (pdFAIL, s1));
          Some (xReturn, portMEMORY_BARRIER (portRESET_PRIVILEGE s2))
        }
      else
        do {
          let lIndex = sint xTaskToNotify;
          (if lIndex \<ge> INDEX_OFFSET \<and>
              lIndex < configPROTECTED_KERNEL_OBJECT_HANDLE_POOL_SIZE s + INDEX_OFFSET then
             do {
               xInternalTaskHandle \<leftarrow> MPU_GetHandleAtIndex (lIndex - INDEX_OFFSET) s;
               let xReturn = xTaskGenericNotify xInternalTaskHandle uxIndexToNotify ulValue
                               eAction pulPreviousNotificationValue;
               let sk = call_kernel (K_xTaskGenericNotify xInternalTaskHandle uxIndexToNotify
                                       ulValue eAction pulPreviousNotificationValue) s;
               Some (xReturn, sk)
             }
           else Some (pdFAIL, s))
        })"

definition MPU_xTaskResumeFromISR ::
  "(KernelObjectHandle_t \<Rightarrow> BaseType_t) \<Rightarrow> KernelObjectHandle_t \<Rightarrow> mpu_state
   \<Rightarrow> (BaseType_t \<times> mpu_state) option" where
  "MPU_xTaskResumeFromISR xTaskResumeFromISR xTaskToResume s =
     (if \<not> portIS_PRIVILEGED s then
        do {
          let s1 = portMEMORY_BARRIER (portRAISE_PRIVILEGE s);
          let lIndex = sint xTaskToResume;
          (xReturn, s2) \<leftarrow>
            (if lIndex \<ge> INDEX_OFFSET \<and>
                lIndex < configPROTECTED_KERNEL_OBJECT_HANDLE_POOL_SIZE s1 + INDEX_OFFSET then
               do {
                 xInternalTaskHandle \<leftarrow> MPU_GetHandleAtIndex (lIndex - INDEX_OFFSET) s1;
                 let xReturn = xTaskResumeFromISR xInternalTaskHandle;
                 let sk = call_kernel (K_xTaskResumeFromISR xInternalTaskHandle) s1;
                 Some (xReturn, portMEMORY_BARRIER sk)
               }
             else Some (pdFAIL, s1));
          Some (xReturn, portMEMORY_BARRIER (portRESET_PRIVILEGE s2))
        }
      else
        do {
          let lIndex = sint xTaskToResume;
          (if lIndex \<ge> INDEX_OFFSET \<and>
              lIndex < configPROTECTED_KERNEL_OBJECT_HANDLE_POOL_SIZE s + INDEX_OFFSET then
             do {
               xInternalTaskHandle \<leftarrow> MPU_GetHandleAtIndex (lIndex - INDEX_OFFSET) s;
               let xReturn = xTaskResumeFromISR xInternalTaskHandle;
               let sk = call_kernel (K_xTaskResumeFromISR xInternalTaskHandle) s;
               Some (xReturn, sk)
             }
           else Some (pdFAIL, s))
        })"

definition MPU_xTaskGenericNotifyFromISR ::
  "(KernelObjectHandle_t \<Rightarrow> UBaseType_t \<Rightarrow> 32 word \<Rightarrow> eNotifyAction \<Rightarrow> pointer_t \<Rightarrow> pointer_t
      \<Rightarrow> BaseType_t)
   \<Rightarrow> KernelObjectHandle_t \<Rightarrow> UBaseType_t \<Rightarrow> 32 word \<Rightarrow> eNotifyAction \<Rightarrow> pointer_t \<Rightarrow> pointer_t
   \<Rightarrow> mpu_state \<Rightarrow> (BaseType_t \<times> mpu_state) option" where
  "MPU_xTaskGenericNotifyFromISR xTaskGenericNotifyFromISR xTaskToNotify uxIndexToNotify ulValue
       eAction pulPreviousNotificationValue pxHigherPriorityTaskWoken s =
     (if \<not> portIS_PRIVILEGED s then
        do {
          let s1 = portMEMORY_BARRIER (portRAISE_PRIVILEGE s);
          let lIndex = sint xTaskToNotify;
          (xReturn, s2) \<leftarrow>
            (if lIndex \<ge> INDEX_OFFSET \<and>
                lIndex < configPROTECTED_KERNEL_OBJECT_HANDLE_POOL_SIZE s1 + INDEX_OFFSET then
               do {
                 xInternalTaskHandle \<leftarrow> MPU_GetHandleAtIndex (lIndex - INDEX_OFFSET) s1;
                 let xReturn = xTaskGenericNotifyFromISR xInternalTaskHandle uxIndexToNotify
                                 ulValue eAction pulPreviousNotificationValue
                                 pxHigherPriorityTaskWoken;
                 let sk = call_kernel (K_xTaskGenericNotifyFromISR xInternalTaskHandle
                                         uxIndexToNotify ulValue eAction
                                         pulPreviousNotificationValue pxHigherPriorityTaskWoken) s1;
                 Some (xReturn, portMEMORY_BARRIER sk)
               }
             else Some (pdFAIL, s1));
          Some (xReturn, portMEMORY_BARRIER (portRESET_PRIVILEGE s2))
        }
      else
        do {
          let lIndex = sint xTaskToNotify;
          (if lIndex \<ge> INDEX_OFFSET \<and>
              lIndex < configPROTECTED_KERNEL_OBJECT_HANDLE_POOL_SIZE s + INDEX_OFFSET then
             do {
               xInternalTaskHandle \<leftarrow> MPU_GetHandleAtIndex (lIndex - INDEX_OFFSET) s;
               let xReturn = xTaskGenericNotifyFromISR xInternalTaskHandle uxIndexToNotify
                               ulValue eAction pulPreviousNotificationValue
                               pxHigherPriorityTaskWoken;
               let sk = call_kernel (K_xTaskGenericNotifyFromISR xInternalTaskHandle
                                       uxIndexToNotify ulValue eAction
                                       pulPreviousNotificationValue pxHigherPriorityTaskWoken) s;
               Some (xReturn, sk)
             }
           else Some (pdFAIL, s))
        })"

definition MPU_vTaskGenericNotifyGiveFromISR ::
  "KernelObjectHandle_t \<Rightarrow> UBaseType_t \<Rightarrow> pointer_t \<Rightarrow> mpu_state \<Rightarrow> mpu_state option" where
  "MPU_vTaskGenericNotifyGiveFromISR xTaskToNotify uxIndexToNotify pxHigherPriorityTaskWoken s =
     (if \<not> portIS_PRIVILEGED s then
        do {
          let s1 = portMEMORY_BARRIER (portRAISE_PRIVILEGE s);
          let lIndex = sint xTaskToNotify;
          s2 \<leftarrow>
            (if lIndex \<ge> INDEX_OFFSET \<and>
                lIndex < configPROTECTED_KERNEL_OBJECT_HANDLE_POOL_SIZE s1 + INDEX_OFFSET then
               do {
                 xInternalTaskHandle \<leftarrow> MPU_GetHandleAtIndex (lIndex - INDEX_OFFSET) s1;
                 let sk = call_kernel (K_vTaskGenericNotifyGiveFromISR xInternalTaskHandle
                                         uxIndexToNotify pxHigherPriorityTaskWoken) s1;
                 Some (portMEMORY_BARRIER sk)
               }
             else Some s1);
          Some (portMEMORY_BARRIER (portRESET_PRIVILEGE s2))
        }
      else
        do {
          let lIndex = sint xTaskToNotify;
          (if lIndex \<ge> INDEX_OFFSET \<and>
              lIndex < configPROTECTED_KERNEL_OBJECT_HANDLE_POOL_SIZE s + INDEX_OFFSET then
             do {
               xInternalTaskHandle \<leftarrow> MPU_GetHandleAtIndex (lIndex - INDEX_OFFSET) s;
               Some (call_kernel (K_vTaskGenericNotifyGiveFromISR xInternalTaskHandle
                                    uxIndexToNotify pxHigherPriorityTaskWoken) s)
             }
           else Some s)
        })"



section \<open>Further queue adapters\<close>

text \<open>
  \<^verbatim>\<open>MPU_xQueueGenericCreate\<close>: a creation adapter of the queue kind; it reserves a slot
  like the task creation adapters and returns the external handle, \<^verbatim>\<open>NULL\<close> by default.
\<close>

definition MPU_xQueueGenericCreate ::
  "(UBaseType_t \<Rightarrow> UBaseType_t \<Rightarrow> 8 word \<Rightarrow> KernelObjectHandle_t)
   \<Rightarrow> UBaseType_t \<Rightarrow> UBaseType_t \<Rightarrow> 8 word \<Rightarrow> mpu_state
   \<Rightarrow> (KernelObjectHandle_t \<times> mpu_state) option" where
  "MPU_xQueueGenericCreate xQueueGenericCreate uxQueueLength uxItemSize ucQueueType s =
     (if \<not> portIS_PRIVILEGED s then
        do {
          let s1 = portMEMORY_BARRIER (portRAISE_PRIVILEGE s);
          let (lIndex, s3) = MPU_GetFreeIndexInHandlePool s1;
          (xExternalQueueHandle, s4) \<leftarrow>
            (if lIndex \<noteq> - 1 then
               do {
                 let xInternalQueueHandle = xQueueGenericCreate uxQueueLength uxItemSize ucQueueType;
                 let sk = call_kernel (K_xQueueGenericCreate uxQueueLength uxItemSize ucQueueType) s3;
                 (xExternalQueueHandle, s') \<leftarrow>
                   (if xInternalQueueHandle \<noteq> NULL then
                      do {
                        s' \<leftarrow> MPU_StoreHandleAtIndex lIndex xInternalQueueHandle sk;
                        Some (word_of_int (lIndex + INDEX_OFFSET), s')
                      }
                    else
                      do {
                        s' \<leftarrow> MPU_SetIndexFreeInHandlePool lIndex sk;
                        Some (NULL, s')
                      });
                 Some (xExternalQueueHandle, portMEMORY_BARRIER s')
               }
             else Some (NULL, s3));
          Some (xExternalQueueHandle, portMEMORY_BARRIER (portRESET_PRIVILEGE s4))
        }
      else
        do {
          let (lIndex, s3) = MPU_GetFreeIndexInHandlePool s;
          (if lIndex \<noteq> - 1 then
             do {
               let xInternalQueueHandle = xQueueGenericCreate uxQueueLength uxItemSize ucQueueType;
               let sk = call_kernel (K_xQueueGenericCreate uxQueueLength uxItemSize ucQueueType) s3;
               (if xInternalQueueHandle \<noteq> NULL then
                  do {
                    s' \<leftarrow> MPU_StoreHandleAtIndex lIndex xInternalQueueHandle sk;
                    Some (word_of_int (lIndex + INDEX_OFFSET), s')
                  }
                else
                  do {
                    s' \<leftarrow> MPU_SetIndexFreeInHandlePool lIndex sk;
                    Some (NULL, s')
                  })
             }
           else Some (NULL, s3))
        })"




section \<open>Timer and stream buffer adapters\<close>




text \<open>
  \<^verbatim>\<open>MPU_xStreamBufferGenericCreate\<close> and \<^verbatim>\<open>MPU_xStreamBufferGenericCreateStatic\<close>:
  \<^verbatim>\<open>configASSERT\<close> requires both callbacks to be \<^verbatim>\<open>NULL\<close>; the test that follows it
  repeats the condition, and its \<^verbatim>\<open>else\<close> branch returns \<^verbatim>\<open>NULL\<close>. The kernel is
  called with \<^verbatim>\<open>NULL\<close> for both callbacks and its result is returned.
\<close>

definition MPU_xStreamBufferGenericCreate ::
  "(32 word \<Rightarrow> 32 word \<Rightarrow> BaseType_t \<Rightarrow> pointer_t \<Rightarrow> pointer_t \<Rightarrow> KernelObjectHandle_t)
   \<Rightarrow> 32 word \<Rightarrow> 32 word \<Rightarrow> BaseType_t \<Rightarrow> pointer_t \<Rightarrow> pointer_t \<Rightarrow> mpu_state
   \<Rightarrow> (KernelObjectHandle_t \<times> mpu_state) option" where
  "MPU_xStreamBufferGenericCreate xStreamBufferGenericCreate xBufferSizeBytes xTriggerLevelBytes
       xIsMessageBuffer pxSendCompletedCallback pxReceiveCompletedCallback s =
     (if pxSendCompletedCallback = NULL \<and> pxReceiveCompletedCallback = NULL then
        (if pxSendCompletedCallback = NULL \<and> pxReceiveCompletedCallback = NULL then
           (if \<not> portIS_PRIVILEGED s then
              do {
                let s1 = portMEMORY_BARRIER (portRAISE_PRIVILEGE s);
                let xReturn = xStreamBufferGenericCreate xBufferSizeBytes xTriggerLevelBytes
                                xIsMessageBuffer NULL NULL;
                let s2 = portMEMORY_BARRIER
                           (call_kernel (K_xStreamBufferGenericCreate xBufferSizeBytes
                                           xTriggerLevelBytes xIsMessageBuffer NULL NULL) s1);
                Some (xReturn, portMEMORY_BARRIER (portRESET_PRIVILEGE s2))
              }
            else
              Some (xStreamBufferGenericCreate xBufferSizeBytes xTriggerLevelBytes
                      xIsMessageBuffer NULL NULL,
                    call_kernel (K_xStreamBufferGenericCreate xBufferSizeBytes
                                   xTriggerLevelBytes xIsMessageBuffer NULL NULL) s))
         else Some (NULL, s))
      else None)"

definition MPU_xStreamBufferGenericCreateStatic ::
  "(32 word \<Rightarrow> 32 word \<Rightarrow> BaseType_t \<Rightarrow> pointer_t \<Rightarrow> pointer_t \<Rightarrow> pointer_t \<Rightarrow> pointer_t
      \<Rightarrow> KernelObjectHandle_t)
   \<Rightarrow> 32 word \<Rightarrow> 32 word \<Rightarrow> BaseType_t \<Rightarrow> pointer_t \<Rightarrow> pointer_t \<Rightarrow> pointer_t \<Rightarrow> pointer_t
   \<Rightarrow> mpu_state \<Rightarrow> (KernelObjectHandle_t \<times> mpu_state) option" where
  "MPU_xStreamBufferGenericCreateStatic xStreamBufferGenericCreateStatic xBufferSizeBytes
       xTriggerLevelBytes xIsMessageBuffer pucStreamBufferStorageArea pxStaticStreamBuffer
       pxSendCompletedCallback pxReceiveCompletedCallback s =
     (if pxSendCompletedCallback = NULL \<and> pxReceiveCompletedCallback = NULL then
        (if pxSendCompletedCallback = NULL \<and> pxReceiveCompletedCallback = NULL then
           (if \<not> portIS_PRIVILEGED s then
              do {
                let s1 = portMEMORY_BARRIER (portRAISE_PRIVILEGE s);
                let xReturn = xStreamBufferGenericCreateStatic xBufferSizeBytes
                                xTriggerLevelBytes xIsMessageBuffer pucStreamBufferStorageArea
                                pxStaticStreamBuffer NULL NULL;
                let s2 = portMEMORY_BARRIER
                           (call_kernel (K_xStreamBufferGenericCreateStatic xBufferSizeBytes
                                           xTriggerLevelBytes xIsMessageBuffer
                                           pucStreamBufferStorageArea pxStaticStreamBuffer
                                           NULL NULL) s1);
                Some (xReturn, portMEMORY_BARRIER (portRESET_PRIVILEGE s2))
              }
            else
              Some (xStreamBufferGenericCreateStatic xBufferSizeBytes xTriggerLevelBytes
                      xIsMessageBuffer pucStreamBufferStorageArea pxStaticStreamBuffer NULL NULL,
                    call_kernel (K_xStreamBufferGenericCreateStatic xBufferSizeBytes
                                   xTriggerLevelBytes xIsMessageBuffer
                                   pucStreamBufferStorageArea pxStaticStreamBuffer NULL NULL) s))
         else Some (NULL, s))
      else None)"

section \<open>Properties of the port primitives and of the pool scans\<close>

lemmas prim_defs =
  log_event_def portIS_PRIVILEGED_def portRAISE_PRIVILEGE_def portRESET_PRIVILEGE_def
  portMEMORY_BARRIER_def vTaskSuspendAll_def xTaskResumeAll_def taskENTER_CRITICAL_def
  taskEXIT_CRITICAL_def call_kernel_def configPROTECTED_KERNEL_OBJECT_HANDLE_POOL_SIZE_def

lemma GetFreeIndex_loop_none:
  "NULL \<notin> set (drop i pool) \<Longrightarrow> GetFreeIndex_loop pool i = (pool, - 1)"
proof (induction pool i rule: GetFreeIndex_loop.induct)
  case (1 pool i)
  show ?case
  proof (cases "i < length pool")
    case True
    then have d: "drop i pool = pool ! i # drop (Suc i) pool"
      by (simp add: Cons_nth_drop_Suc)
    with "1.prems" have ne: "pool ! i \<noteq> NULL" and rest: "NULL \<notin> set (drop (i + 1) pool)"
      by auto
    from "1.IH" [OF True ne rest] True ne show ?thesis
      by (subst GetFreeIndex_loop.simps) simp
  next
    case False
    then show ?thesis by (subst GetFreeIndex_loop.simps) simp
  qed
qed

lemma GetFreeIndex_loop_first:
  "i \<le> j \<Longrightarrow> j < length pool \<Longrightarrow> pool ! j = NULL \<Longrightarrow> \<forall>k. i \<le> k \<and> k < j \<longrightarrow> pool ! k \<noteq> NULL
   \<Longrightarrow> GetFreeIndex_loop pool i = (pool[j := - 1], int j)"
proof (induction pool i rule: GetFreeIndex_loop.induct)
  case (1 pool i)
  show ?case
  proof (cases "i = j")
    case True
    with "1.prems" show ?thesis by (subst GetFreeIndex_loop.simps) simp
  next
    case False
    with "1.prems" have lt: "i < length pool" and ne: "pool ! i \<noteq> NULL" and le: "i + 1 \<le> j"
      by auto
    from "1.prems" have "\<forall>k. i + 1 \<le> k \<and> k < j \<longrightarrow> pool ! k \<noteq> NULL" by auto
    from "1.IH" [OF lt ne le "1.prems"(2,3) this] lt ne show ?thesis
      by (subst GetFreeIndex_loop.simps) simp
  qed
qed

lemma first_free_exists:
  assumes "NULL \<in> set pool"
  shows "\<exists>j < length pool. pool ! j = NULL \<and> (\<forall>k < j. pool ! k \<noteq> NULL)"
proof -
  from assms obtain n where n: "n < length pool" "pool ! n = NULL"
    by (auto simp: in_set_conv_nth)
  define j where "j = (LEAST m. m < length pool \<and> pool ! m = NULL)"
  have jp: "j < length pool \<and> pool ! j = NULL"
    unfolding j_def by (rule LeastI [of _ n]) (use n in simp)
  have "\<forall>k < j. pool ! k \<noteq> NULL"
  proof (intro allI impI notI)
    fix k assume "k < j" "pool ! k = NULL"
    with jp have "k < length pool \<and> pool ! k = NULL" by simp
    then have "j \<le> k" unfolding j_def by (rule Least_le)
    with \<open>k < j\<close> show False by simp
  qed
  with jp show ?thesis by blast
qed



section \<open>Privilege symmetry\<close>

text \<open>
  Claim C1 (privilege symmetry: an adapter call that starts unprivileged raises and
  resets privilege exactly once each, and never raises twice without a reset in between,
  in particular \<^verbatim>\<open>MPU_vTaskDelete\<close> with a \<^verbatim>\<open>NULL\<close> handle). The source does not do
  this: called unprivileged with \<^verbatim>\<open>NULL\<close>, \<^verbatim>\<open>MPU_vTaskDelete\<close> invokes the raise
  primitive twice with only the kernel call and barriers in between, never invokes the
  reset primitive, and returns with the processor still privileged. The theorem
  evaluates the adapter at that input, for any pool and any earlier log.
\<close>

theorem MPU_vTaskDelete_NULL_unprivileged_raises_twice:
  "MPU_vTaskDelete NULL (s\<lparr>privileged := False\<rparr>) =
     Some (s\<lparr>privileged := True,
              trace := trace s @ [RaisePrivilege, MemoryBarrier, Kernel (K_vTaskDelete NULL),
                                  MemoryBarrier, RaisePrivilege, MemoryBarrier]\<rparr>)
   \<and> raise_count (the (MPU_vTaskDelete NULL (s\<lparr>privileged := False\<rparr>))) = raise_count s + 2
   \<and> reset_count (the (MPU_vTaskDelete NULL (s\<lparr>privileged := False\<rparr>))) = reset_count s"
  by (simp add: MPU_vTaskDelete_def prim_defs raise_count_def reset_count_def)

text \<open>
  The sibling branch of the same adapter, for a handle in range, is symmetric: one
  raise, one reset, unprivileged again on return.
\<close>

lemma MPU_vTaskDelete_in_range_unprivileged_balanced:
  assumes "\<not> privileged s" "INDEX_OFFSET \<le> sint h"
    "sint h < configPROTECTED_KERNEL_OBJECT_HANDLE_POOL_SIZE s + INDEX_OFFSET"
  shows "\<exists>s'. MPU_vTaskDelete h s = Some s' \<and> raise_count s' = raise_count s + 1
     \<and> reset_count s' = reset_count s + 1 \<and> \<not> privileged s'"
proof -
  from assms(2) have "h \<noteq> NULL" by auto
  with assms show ?thesis
    by (simp add: MPU_vTaskDelete_def MPU_GetHandleAtIndex_def MPU_SetIndexFreeInHandlePool_def
        prim_defs raise_count_def reset_count_def Let_def)
qed

section \<open>The two copies of the queue send adapter\<close>

lemma MPU_GetHandleAtIndex_common_eq:
  "MPU_GetHandleAtIndex_common lIndex s = MPU_GetHandleAtIndex lIndex s"
  by (simp add: MPU_GetHandleAtIndex_common_def MPU_GetHandleAtIndex_def)

text \<open>
  Claim C10: \<^verbatim>\<open>MPU_xQueueGenericSend\<close> of \<^verbatim>\<open>portable/Common/mpu_wrappers.c\<close> and
  \<^verbatim>\<open>MPU_xQueueGenericSend\<close> of the other file agree on every kernel primitive, handle,
  argument tuple and state (pool, privilege level, log): same returned status, same
  resulting pool, same sequence of raise, reset, barrier and kernel invocations.
\<close>

theorem MPU_xQueueGenericSend_copies_agree:
  "MPU_xQueueGenericSend_common xQueueGenericSend xQueue pvItemToQueue xTicksToWait
       xCopyPosition s =
   MPU_xQueueGenericSend xQueueGenericSend xQueue pvItemToQueue xTicksToWait xCopyPosition s"
  by (simp only: MPU_xQueueGenericSend_common_def MPU_xQueueGenericSend_def
      MPU_GetHandleAtIndex_common_eq)

section \<open>Slot reservation\<close>

lemma MPU_GetFreeIndexInHandlePool_full:
  assumes "NULL \<notin> set (xKernelObjectHandlePool s)"
  shows "MPU_GetFreeIndexInHandlePool s = (- 1, xTaskResumeAll (vTaskSuspendAll s))"
proof -
  from assms have "GetFreeIndex_loop (xKernelObjectHandlePool s) 0 = (xKernelObjectHandlePool s, - 1)"
    by (intro GetFreeIndex_loop_none) simp
  then show ?thesis
    by (simp add: MPU_GetFreeIndexInHandlePool_def prim_defs)
qed

lemma MPU_GetFreeIndexInHandlePool_free:
  assumes "j < length (xKernelObjectHandlePool s)" "xKernelObjectHandlePool s ! j = NULL"
    "\<forall>k < j. xKernelObjectHandlePool s ! k \<noteq> NULL"
  shows "MPU_GetFreeIndexInHandlePool s =
    (int j, xTaskResumeAll ((vTaskSuspendAll s)\<lparr>xKernelObjectHandlePool :=
                               (xKernelObjectHandlePool s)[j := - 1]\<rparr>))"
proof -
  from assms have "GetFreeIndex_loop (xKernelObjectHandlePool s) 0 =
      ((xKernelObjectHandlePool s)[j := - 1], int j)"
    by (intro GetFreeIndex_loop_first) auto
  then show ?thesis
    by (simp add: MPU_GetFreeIndexInHandlePool_def prim_defs)
qed

lemma kernel_calls_append [simp]:
  "kernel_calls (xs @ ys) = kernel_calls xs @ kernel_calls ys"
  by (induction xs rule: kernel_calls.induct) simp_all

section \<open>Exhaustion\<close>

lemma MPU_xTaskCreate_full:
  assumes "NULL \<notin> set (xKernelObjectHandlePool t)"
  shows "\<exists>s'. MPU_xTaskCreate xTaskCreate portPRIVILEGE_BIT pvTaskCode pcName usStackDepth
             pvParameters uxPriority t = Some (pdFAIL, None, s')
        \<and> xKernelObjectHandlePool s' = xKernelObjectHandlePool t
        \<and> kernel_calls (trace s') = kernel_calls (trace t)"
  using assms by (simp add: MPU_xTaskCreate_def MPU_GetFreeIndexInHandlePool_full prim_defs)

lemma MPU_xTaskCreateStatic_full:
  assumes "NULL \<notin> set (xKernelObjectHandlePool t)"
  shows "\<exists>s'. MPU_xTaskCreateStatic xTaskCreateStatic portPRIVILEGE_BIT pxTaskCode pcName
             ulStackDepth pvParameters uxPriority puxStackBuffer pxTaskBuffer t = Some (NULL, s')
        \<and> xKernelObjectHandlePool s' = xKernelObjectHandlePool t
        \<and> kernel_calls (trace s') = kernel_calls (trace t)"
  using assms by (simp add: MPU_xTaskCreateStatic_def MPU_GetFreeIndexInHandlePool_full prim_defs)

lemma MPU_xQueueGenericCreate_full:
  assumes "NULL \<notin> set (xKernelObjectHandlePool t)"
  shows "\<exists>s'. MPU_xQueueGenericCreate xQueueGenericCreate uxQueueLength uxItemSize ucQueueType t
             = Some (NULL, s')
        \<and> xKernelObjectHandlePool s' = xKernelObjectHandlePool t
        \<and> kernel_calls (trace s') = kernel_calls (trace t)"
  using assms by (simp add: MPU_xQueueGenericCreate_def MPU_GetFreeIndexInHandlePool_full prim_defs)

lemma MPU_xStreamBufferGenericCreate_forwards:
  "\<exists>s'. MPU_xStreamBufferGenericCreate xStreamBufferGenericCreate xBufferSizeBytes
             xTriggerLevelBytes xIsMessageBuffer NULL NULL s
             = Some (xStreamBufferGenericCreate xBufferSizeBytes xTriggerLevelBytes
                       xIsMessageBuffer NULL NULL, s')
        \<and> xKernelObjectHandlePool s' = xKernelObjectHandlePool s
        \<and> kernel_calls (trace s') = kernel_calls (trace s) @
             [K_xStreamBufferGenericCreate xBufferSizeBytes xTriggerLevelBytes xIsMessageBuffer
                NULL NULL]"
  by (simp add: MPU_xStreamBufferGenericCreate_def prim_defs)

lemma MPU_xStreamBufferGenericCreateStatic_forwards:
  "\<exists>s'. MPU_xStreamBufferGenericCreateStatic xStreamBufferGenericCreateStatic
             xBufferSizeBytes xTriggerLevelBytes xIsMessageBuffer pucStreamBufferStorageArea
             pxStaticStreamBuffer NULL NULL s
             = Some (xStreamBufferGenericCreateStatic xBufferSizeBytes xTriggerLevelBytes
                       xIsMessageBuffer pucStreamBufferStorageArea pxStaticStreamBuffer
                       NULL NULL, s')
        \<and> xKernelObjectHandlePool s' = xKernelObjectHandlePool s
        \<and> kernel_calls (trace s') = kernel_calls (trace s) @
             [K_xStreamBufferGenericCreateStatic xBufferSizeBytes xTriggerLevelBytes
                xIsMessageBuffer pucStreamBufferStorageArea pxStaticStreamBuffer NULL NULL]"
  by (simp add: MPU_xStreamBufferGenericCreateStatic_def prim_defs)

text \<open>
  Claim C3 as stated (with no free slot, a creation adapter fails without invoking the
  underlying create primitive) does not hold for every creation adapter:
  \<^verbatim>\<open>MPU_xStreamBufferGenericCreate\<close> does not use the handle pool. In a pool whose four
  slots are all occupied it invokes the kernel's create primitive and returns the
  reference that the kernel gives.
\<close>

theorem MPU_xStreamBufferGenericCreate_ignores_full_pool:
  "MPU_xStreamBufferGenericCreate (\<lambda>_ _ _ _ _. 0x20000400) 64 1 0 NULL NULL
     \<lparr>xKernelObjectHandlePool = [5, 6, 7, 8], privileged = True, trace = []\<rparr> =
   Some (0x20000400,
     \<lparr>xKernelObjectHandlePool = [5, 6, 7, 8], privileged = True,
      trace = [Kernel (K_xStreamBufferGenericCreate 64 1 0 NULL NULL)]\<rparr>)"
  by (simp add: MPU_xStreamBufferGenericCreate_def prim_defs)

text \<open>
  Claim C3, amended (exhaustion): in a pool with no free slot,
  \<^verbatim>\<open>MPU_GetFreeIndexInHandlePool\<close> returns \<open>-1\<close>, and a creation adapter that reserves a
  slot of the handle pool (\<^verbatim>\<open>MPU_xTaskCreate\<close>, \<^verbatim>\<open>MPU_xTaskCreateStatic\<close> and
  \<^verbatim>\<open>MPU_xQueueGenericCreate\<close> stand for the task, queue, mutex, semaphore, queue set and
  event group creation adapters) returns its failure value (\<^verbatim>\<open>pdFAIL\<close>, respectively
  \<^verbatim>\<open>NULL\<close>), writes no handle, forwards nothing to the kernel and leaves every slot as
  it was; calling it again in the resulting state does the same. The stream buffer
  creation adapters \<^verbatim>\<open>MPU_xStreamBufferGenericCreate\<close> and
  \<^verbatim>\<open>MPU_xStreamBufferGenericCreateStatic\<close> do not use the handle pool: whatever the pool
  holds, they forward the call to the kernel, return the kernel's result and leave the
  pool as it is.
\<close>

theorem exhausted_pool_creation_fails:
  assumes full: "NULL \<notin> set (xKernelObjectHandlePool s)"
  shows "fst (MPU_GetFreeIndexInHandlePool s) = - 1 \<and>
    (\<exists>s'. MPU_xTaskCreate xTaskCreate portPRIVILEGE_BIT pvTaskCode pcName usStackDepth
             pvParameters uxPriority s = Some (pdFAIL, None, s')
        \<and> xKernelObjectHandlePool s' = xKernelObjectHandlePool s
        \<and> kernel_calls (trace s') = kernel_calls (trace s)
        \<and> (\<exists>s''. MPU_xTaskCreate xTaskCreate portPRIVILEGE_BIT pvTaskCode pcName usStackDepth
             pvParameters uxPriority s' = Some (pdFAIL, None, s'')
            \<and> xKernelObjectHandlePool s'' = xKernelObjectHandlePool s
            \<and> kernel_calls (trace s'') = kernel_calls (trace s))) \<and>
    (\<exists>s'. MPU_xTaskCreateStatic xTaskCreateStatic portPRIVILEGE_BIT pxTaskCode pcName'
             ulStackDepth pvParameters' uxPriority' puxStackBuffer pxTaskBuffer s = Some (NULL, s')
        \<and> xKernelObjectHandlePool s' = xKernelObjectHandlePool s
        \<and> kernel_calls (trace s') = kernel_calls (trace s)
        \<and> (\<exists>s''. MPU_xTaskCreateStatic xTaskCreateStatic portPRIVILEGE_BIT pxTaskCode pcName'
             ulStackDepth pvParameters' uxPriority' puxStackBuffer pxTaskBuffer s' = Some (NULL, s'')
            \<and> xKernelObjectHandlePool s'' = xKernelObjectHandlePool s
            \<and> kernel_calls (trace s'') = kernel_calls (trace s))) \<and>
    (\<exists>s'. MPU_xQueueGenericCreate xQueueGenericCreate uxQueueLength uxItemSize ucQueueType s
             = Some (NULL, s')
        \<and> xKernelObjectHandlePool s' = xKernelObjectHandlePool s
        \<and> kernel_calls (trace s') = kernel_calls (trace s)
        \<and> (\<exists>s''. MPU_xQueueGenericCreate xQueueGenericCreate uxQueueLength uxItemSize
               ucQueueType s' = Some (NULL, s'')
            \<and> xKernelObjectHandlePool s'' = xKernelObjectHandlePool s
            \<and> kernel_calls (trace s'') = kernel_calls (trace s))) \<and>
    (\<exists>s'. MPU_xStreamBufferGenericCreate xStreamBufferGenericCreate xBufferSizeBytes
             xTriggerLevelBytes xIsMessageBuffer NULL NULL s
             = Some (xStreamBufferGenericCreate xBufferSizeBytes xTriggerLevelBytes
                       xIsMessageBuffer NULL NULL, s')
        \<and> xKernelObjectHandlePool s' = xKernelObjectHandlePool s
        \<and> kernel_calls (trace s') = kernel_calls (trace s) @
             [K_xStreamBufferGenericCreate xBufferSizeBytes xTriggerLevelBytes xIsMessageBuffer
                NULL NULL]) \<and>
    (\<exists>s'. MPU_xStreamBufferGenericCreateStatic xStreamBufferGenericCreateStatic
             xBufferSizeBytes' xTriggerLevelBytes' xIsMessageBuffer' pucStreamBufferStorageArea
             pxStaticStreamBuffer NULL NULL s
             = Some (xStreamBufferGenericCreateStatic xBufferSizeBytes' xTriggerLevelBytes'
                       xIsMessageBuffer' pucStreamBufferStorageArea pxStaticStreamBuffer
                       NULL NULL, s')
        \<and> xKernelObjectHandlePool s' = xKernelObjectHandlePool s
        \<and> kernel_calls (trace s') = kernel_calls (trace s) @
             [K_xStreamBufferGenericCreateStatic xBufferSizeBytes' xTriggerLevelBytes'
                xIsMessageBuffer' pucStreamBufferStorageArea pxStaticStreamBuffer NULL NULL])"
proof -
  have idx: "fst (MPU_GetFreeIndexInHandlePool s) = - 1"
    by (simp add: MPU_GetFreeIndexInHandlePool_full [OF full])
  from MPU_xTaskCreate_full [OF full] obtain s1 where
    s1: "MPU_xTaskCreate xTaskCreate portPRIVILEGE_BIT pvTaskCode pcName usStackDepth
           pvParameters uxPriority s = Some (pdFAIL, None, s1)"
      "xKernelObjectHandlePool s1 = xKernelObjectHandlePool s"
      "kernel_calls (trace s1) = kernel_calls (trace s)"
    by blast
  from full s1(2) have "NULL \<notin> set (xKernelObjectHandlePool s1)" by simp
  from MPU_xTaskCreate_full [OF this] obtain s1' where
    "MPU_xTaskCreate xTaskCreate portPRIVILEGE_BIT pvTaskCode pcName usStackDepth
           pvParameters uxPriority s1 = Some (pdFAIL, None, s1')"
      "xKernelObjectHandlePool s1' = xKernelObjectHandlePool s1"
      "kernel_calls (trace s1') = kernel_calls (trace s1)"
    by blast
  with s1 have dyn: "\<exists>s'. MPU_xTaskCreate xTaskCreate portPRIVILEGE_BIT pvTaskCode pcName
             usStackDepth pvParameters uxPriority s = Some (pdFAIL, None, s')
        \<and> xKernelObjectHandlePool s' = xKernelObjectHandlePool s
        \<and> kernel_calls (trace s') = kernel_calls (trace s)
        \<and> (\<exists>s''. MPU_xTaskCreate xTaskCreate portPRIVILEGE_BIT pvTaskCode pcName usStackDepth
             pvParameters uxPriority s' = Some (pdFAIL, None, s'')
            \<and> xKernelObjectHandlePool s'' = xKernelObjectHandlePool s
            \<and> kernel_calls (trace s'') = kernel_calls (trace s))"
    by simp
  from MPU_xTaskCreateStatic_full [OF full] obtain s2 where
    s2: "MPU_xTaskCreateStatic xTaskCreateStatic portPRIVILEGE_BIT pxTaskCode pcName'
           ulStackDepth pvParameters' uxPriority' puxStackBuffer pxTaskBuffer s = Some (NULL, s2)"
      "xKernelObjectHandlePool s2 = xKernelObjectHandlePool s"
      "kernel_calls (trace s2) = kernel_calls (trace s)"
    by blast
  from full s2(2) have "NULL \<notin> set (xKernelObjectHandlePool s2)" by simp
  from MPU_xTaskCreateStatic_full [OF this] obtain s2' where
    "MPU_xTaskCreateStatic xTaskCreateStatic portPRIVILEGE_BIT pxTaskCode pcName'
           ulStackDepth pvParameters' uxPriority' puxStackBuffer pxTaskBuffer s2 = Some (NULL, s2')"
      "xKernelObjectHandlePool s2' = xKernelObjectHandlePool s2"
      "kernel_calls (trace s2') = kernel_calls (trace s2)"
    by blast
  with s2 have stat: "\<exists>s'. MPU_xTaskCreateStatic xTaskCreateStatic portPRIVILEGE_BIT pxTaskCode
             pcName' ulStackDepth pvParameters' uxPriority' puxStackBuffer pxTaskBuffer s
               = Some (NULL, s')
        \<and> xKernelObjectHandlePool s' = xKernelObjectHandlePool s
        \<and> kernel_calls (trace s') = kernel_calls (trace s)
        \<and> (\<exists>s''. MPU_xTaskCreateStatic xTaskCreateStatic portPRIVILEGE_BIT pxTaskCode pcName'
             ulStackDepth pvParameters' uxPriority' puxStackBuffer pxTaskBuffer s' = Some (NULL, s'')
            \<and> xKernelObjectHandlePool s'' = xKernelObjectHandlePool s
            \<and> kernel_calls (trace s'') = kernel_calls (trace s))"
    by simp
  from MPU_xQueueGenericCreate_full [OF full] obtain s3 where
    s3: "MPU_xQueueGenericCreate xQueueGenericCreate uxQueueLength uxItemSize ucQueueType s
           = Some (NULL, s3)"
      "xKernelObjectHandlePool s3 = xKernelObjectHandlePool s"
      "kernel_calls (trace s3) = kernel_calls (trace s)"
    by blast
  from full s3(2) have "NULL \<notin> set (xKernelObjectHandlePool s3)" by simp
  from MPU_xQueueGenericCreate_full [OF this] obtain s3' where
    "MPU_xQueueGenericCreate xQueueGenericCreate uxQueueLength uxItemSize ucQueueType s3
           = Some (NULL, s3')"
      "xKernelObjectHandlePool s3' = xKernelObjectHandlePool s3"
      "kernel_calls (trace s3') = kernel_calls (trace s3)"
    by blast
  with s3 have que: "\<exists>s'. MPU_xQueueGenericCreate xQueueGenericCreate uxQueueLength uxItemSize
             ucQueueType s = Some (NULL, s')
        \<and> xKernelObjectHandlePool s' = xKernelObjectHandlePool s
        \<and> kernel_calls (trace s') = kernel_calls (trace s)
        \<and> (\<exists>s''. MPU_xQueueGenericCreate xQueueGenericCreate uxQueueLength uxItemSize
               ucQueueType s' = Some (NULL, s'')
            \<and> xKernelObjectHandlePool s'' = xKernelObjectHandlePool s
            \<and> kernel_calls (trace s'') = kernel_calls (trace s))"
    by simp
  note sb = MPU_xStreamBufferGenericCreate_forwards
    [of xStreamBufferGenericCreate xBufferSizeBytes xTriggerLevelBytes xIsMessageBuffer s]
  note sbs = MPU_xStreamBufferGenericCreateStatic_forwards
    [of xStreamBufferGenericCreateStatic xBufferSizeBytes' xTriggerLevelBytes' xIsMessageBuffer'
        pucStreamBufferStorageArea pxStaticStreamBuffer s]
  from idx dyn stat que sb sbs show ?thesis by (intro conjI)
qed

theorem exhausted_pool_creation_fails_witness:
  "NULL \<notin> set (xKernelObjectHandlePool
      \<lparr>xKernelObjectHandlePool = [5, 6, 7, 8], privileged = False, trace = []\<rparr>) \<and>
   fst (MPU_GetFreeIndexInHandlePool
      \<lparr>xKernelObjectHandlePool = [5, 6, 7, 8], privileged = False, trace = []\<rparr>) = - 1 \<and>
   MPU_xTaskCreate (\<lambda>_ _ _ _ _. (pdPASS, 9)) 0x80000000 0 0 128 0 3
      \<lparr>xKernelObjectHandlePool = [5, 6, 7, 8], privileged = False, trace = []\<rparr> =
     Some (pdFAIL, None, \<lparr>xKernelObjectHandlePool = [5, 6, 7, 8], privileged = False,
        trace = [RaisePrivilege, MemoryBarrier, MemoryBarrier, SuspendAll, ResumeAll,
                 ResetPrivilege, MemoryBarrier]\<rparr>) \<and>
   MPU_xQueueGenericCreate (\<lambda>_ _ _. 9) 4 1 0
      \<lparr>xKernelObjectHandlePool = [5, 6, 7, 8], privileged = False, trace = []\<rparr> =
     Some (NULL, \<lparr>xKernelObjectHandlePool = [5, 6, 7, 8], privileged = False,
        trace = [RaisePrivilege, MemoryBarrier, SuspendAll, ResumeAll,
                 ResetPrivilege, MemoryBarrier]\<rparr>)"
  using exhausted_pool_creation_fails
    [where s = "\<lparr>xKernelObjectHandlePool = [5, 6, 7, 8], privileged = False, trace = []\<rparr>"
       and xTaskCreate = "\<lambda>_ _ _ _ _. (pdPASS, 9)" and portPRIVILEGE_BIT = "0x80000000"
       and pvTaskCode = 0 and pcName = 0 and usStackDepth = 128 and pvParameters = 0
       and uxPriority = 3 and xQueueGenericCreate = "\<lambda>_ _ _. 9" and uxQueueLength = 4
       and uxItemSize = 1 and ucQueueType = 0]
  by (simp add: MPU_xTaskCreate_def MPU_xQueueGenericCreate_def MPU_GetFreeIndexInHandlePool_def
      GetFreeIndex_loop.simps prim_defs)

section \<open>Creation adapters in a pool with a free slot\<close>

text \<open>
  What \<^verbatim>\<open>MPU_xTaskCreate\<close> and \<^verbatim>\<open>MPU_xTaskCreateStatic\<close> do when slot \<open>j\<close> is the
  first free one: the kernel primitive is called once, with the priority masked for an
  unprivileged caller; a non-\<^verbatim>\<open>NULL\<close> reference is stored in slot \<open>j\<close> and \<open>j + 1\<close>
  is handed out, a \<^verbatim>\<open>NULL\<close> reference puts slot \<open>j\<close> back to \<^verbatim>\<open>NULL\<close>.
\<close>

lemma MPU_xTaskCreate_free:
  assumes j: "j < length (xKernelObjectHandlePool s)" "xKernelObjectHandlePool s ! j = NULL"
    "\<forall>k < j. xKernelObjectHandlePool s ! k \<noteq> NULL"
    and k: "xTaskCreate pvTaskCode pcName usStackDepth pvParameters
              (if privileged s then uxPriority else uxPriority AND NOT portPRIVILEGE_BIT)
            = (xReturn, xInternalTaskHandle)"
  shows "\<exists>s'. MPU_xTaskCreate xTaskCreate portPRIVILEGE_BIT pvTaskCode pcName usStackDepth
             pvParameters uxPriority s
           = Some (xReturn,
                   (if xInternalTaskHandle \<noteq> NULL then Some (word_of_int (int j + INDEX_OFFSET))
                    else None), s')
        \<and> xKernelObjectHandlePool s' =
            (if xInternalTaskHandle \<noteq> NULL then (xKernelObjectHandlePool s)[j := xInternalTaskHandle]
             else xKernelObjectHandlePool s)
        \<and> privileged s' = privileged s
        \<and> kernel_calls (trace s') = kernel_calls (trace s) @
            [K_xTaskCreate pvTaskCode pcName usStackDepth pvParameters
              (if privileged s then uxPriority else uxPriority AND NOT portPRIVILEGE_BIT)]"
proof -
  have same: "(xKernelObjectHandlePool s)[j := NULL] = xKernelObjectHandlePool s"
    using j(2) by (metis list_update_id)
  have g: "MPU_GetFreeIndexInHandlePool t =
      (int j, xTaskResumeAll ((vTaskSuspendAll t)\<lparr>xKernelObjectHandlePool :=
                               (xKernelObjectHandlePool s)[j := - 1]\<rparr>))"
    if "xKernelObjectHandlePool t = xKernelObjectHandlePool s" for t
    using MPU_GetFreeIndexInHandlePool_free [of j t] j that by simp
  show ?thesis
  proof (cases "privileged s")
    case True
    with k j(1) same show ?thesis
      by (simp add: MPU_xTaskCreate_def g MPU_StoreHandleAtIndex_def
          MPU_SetIndexFreeInHandlePool_def prim_defs)
  next
    case False
    with k j(1) same show ?thesis
      by (simp add: MPU_xTaskCreate_def g MPU_StoreHandleAtIndex_def
          MPU_SetIndexFreeInHandlePool_def prim_defs)
  qed
qed


lemma MPU_xTaskCreateStatic_free:
  assumes j: "j < length (xKernelObjectHandlePool s)" "xKernelObjectHandlePool s ! j = NULL"
    "\<forall>k < j. xKernelObjectHandlePool s ! k \<noteq> NULL"
    and k: "xTaskCreateStatic pxTaskCode pcName ulStackDepth pvParameters
              (if privileged s then uxPriority else uxPriority AND NOT portPRIVILEGE_BIT)
              puxStackBuffer pxTaskBuffer
            = xInternalTaskHandle"
  shows "\<exists>s'. MPU_xTaskCreateStatic xTaskCreateStatic portPRIVILEGE_BIT pxTaskCode pcName
             ulStackDepth pvParameters uxPriority puxStackBuffer pxTaskBuffer s
           = Some ((if xInternalTaskHandle \<noteq> NULL then word_of_int (int j + INDEX_OFFSET)
                    else NULL), s')
        \<and> xKernelObjectHandlePool s' =
            (if xInternalTaskHandle \<noteq> NULL then (xKernelObjectHandlePool s)[j := xInternalTaskHandle]
             else xKernelObjectHandlePool s)
        \<and> privileged s' = privileged s
        \<and> kernel_calls (trace s') = kernel_calls (trace s) @
            [K_xTaskCreateStatic pxTaskCode pcName ulStackDepth pvParameters
              (if privileged s then uxPriority else uxPriority AND NOT portPRIVILEGE_BIT)
              puxStackBuffer pxTaskBuffer]"
proof -
  have same: "(xKernelObjectHandlePool s)[j := NULL] = xKernelObjectHandlePool s"
    using j(2) by (metis list_update_id)
  have g: "MPU_GetFreeIndexInHandlePool t =
      (int j, xTaskResumeAll ((vTaskSuspendAll t)\<lparr>xKernelObjectHandlePool :=
                               (xKernelObjectHandlePool s)[j := - 1]\<rparr>))"
    if "xKernelObjectHandlePool t = xKernelObjectHandlePool s" for t
    using MPU_GetFreeIndexInHandlePool_free [of j t] j that by simp
  show ?thesis
  proof (cases "privileged s")
    case True
    with k j(1) same show ?thesis
      by (simp add: MPU_xTaskCreateStatic_def g MPU_StoreHandleAtIndex_def
          MPU_SetIndexFreeInHandlePool_def prim_defs)
  next
    case False
    with k j(1) same show ?thesis
      by (simp add: MPU_xTaskCreateStatic_def g MPU_StoreHandleAtIndex_def
          MPU_SetIndexFreeInHandlePool_def prim_defs)
  qed
qed

lemma MPU_xQueueGenericCreate_free:
  assumes j: "j < length (xKernelObjectHandlePool s)" "xKernelObjectHandlePool s ! j = NULL"
    "\<forall>k < j. xKernelObjectHandlePool s ! k \<noteq> NULL"
    and k: "xQueueGenericCreate uxQueueLength uxItemSize ucQueueType = xInternalQueueHandle"
  shows "\<exists>s'. MPU_xQueueGenericCreate xQueueGenericCreate uxQueueLength uxItemSize ucQueueType s
           = Some ((if xInternalQueueHandle \<noteq> NULL then word_of_int (int j + INDEX_OFFSET)
                    else NULL), s')
        \<and> xKernelObjectHandlePool s' =
            (if xInternalQueueHandle \<noteq> NULL
             then (xKernelObjectHandlePool s)[j := xInternalQueueHandle]
             else xKernelObjectHandlePool s)
        \<and> privileged s' = privileged s
        \<and> kernel_calls (trace s') = kernel_calls (trace s) @
            [K_xQueueGenericCreate uxQueueLength uxItemSize ucQueueType]"
proof -
  have same: "(xKernelObjectHandlePool s)[j := NULL] = xKernelObjectHandlePool s"
    using j(2) by (metis list_update_id)
  have g: "MPU_GetFreeIndexInHandlePool t =
      (int j, xTaskResumeAll ((vTaskSuspendAll t)\<lparr>xKernelObjectHandlePool :=
                               (xKernelObjectHandlePool s)[j := - 1]\<rparr>))"
    if "xKernelObjectHandlePool t = xKernelObjectHandlePool s" for t
    using MPU_GetFreeIndexInHandlePool_free [of j t] j that by simp
  show ?thesis
  proof (cases "privileged s")
    case True
    with k j(1) same show ?thesis
      by (simp add: MPU_xQueueGenericCreate_def g MPU_StoreHandleAtIndex_def
          MPU_SetIndexFreeInHandlePool_def prim_defs)
  next
    case False
    with k j(1) same show ?thesis
      by (simp add: MPU_xQueueGenericCreate_def g MPU_StoreHandleAtIndex_def
          MPU_SetIndexFreeInHandlePool_def prim_defs)
  qed
qed

lemma MPU_vTaskDelete_in_range:
  assumes "INDEX_OFFSET \<le> sint h"
    "sint h < configPROTECTED_KERNEL_OBJECT_HANDLE_POOL_SIZE s + INDEX_OFFSET"
  shows "\<exists>s'. MPU_vTaskDelete h s = Some s'
     \<and> xKernelObjectHandlePool s' = (xKernelObjectHandlePool s)[nat (sint h - INDEX_OFFSET) := NULL]
     \<and> privileged s' = privileged s
     \<and> kernel_calls (trace s') = kernel_calls (trace s) @
          [K_vTaskDelete (xKernelObjectHandlePool s ! nat (sint h - INDEX_OFFSET))]"
proof -
  from assms(1) have "h \<noteq> NULL" by auto
  with assms show ?thesis
    by (cases "privileged s")
      (simp_all add: MPU_vTaskDelete_def MPU_GetHandleAtIndex_def MPU_SetIndexFreeInHandlePool_def
        prim_defs Let_def)
qed

lemma sint_external_handle:
  assumes "j < (2::nat) ^ 31 - 1"
  shows "sint (word_of_int (int j + INDEX_OFFSET) :: 32 word) = int j + INDEX_OFFSET"
proof -
  from assms have "- (2 ^ 31) \<le> int j + 1" "int j + 1 < 2 ^ 31" by simp_all
  then have "signed_take_bit (LENGTH(32) - 1) (int j + 1) = int j + 1"
    by (simp add: signed_take_bit_int_eq_self)
  then show ?thesis
    by (simp only: sint_sbintrunc')
qed

lemmas adapter_eval =
  MPU_GetFreeIndexInHandlePool_def GetFreeIndex_loop.simps MPU_SetIndexFreeInHandlePool_def
  MPU_StoreHandleAtIndex_def MPU_GetHandleAtIndex_def MPU_GetIndexForHandle_def
  GetIndexForHandle_loop.simps prim_defs

section \<open>Atomicity of creation on error\<close>

text \<open>
  Claim C2 (creation rolls back on failure): when a free slot exists, so that the
  reservation succeeds, and the kernel's create primitive fails (it leaves a \<^verbatim>\<open>NULL\<close>
  internal reference; for \<^verbatim>\<open>xTaskCreate\<close> its status \<open>xReturn\<close> is not \<^verbatim>\<open>pdPASS\<close>),
  then \<^verbatim>\<open>MPU_xTaskCreate\<close> returns that failure status, unchanged, and writes no handle,
  \<^verbatim>\<open>MPU_xTaskCreateStatic\<close> returns \<^verbatim>\<open>NULL\<close>, the slot that the reservation had
  claimed is free again, and the whole pool is exactly as it was before the call.
\<close>

theorem failed_creation_rolls_back_slot:
  assumes free: "NULL \<in> set (xKernelObjectHandlePool s)"
    and dyn: "xTaskCreate pvTaskCode pcName usStackDepth pvParameters
                (if privileged s then uxPriority else uxPriority AND NOT portPRIVILEGE_BIT)
              = (xReturn, NULL)"
    and status: "xReturn \<noteq> pdPASS"
    and stat: "xTaskCreateStatic pxTaskCode pcName' ulStackDepth pvParameters'
                (if privileged s then uxPriority' else uxPriority' AND NOT portPRIVILEGE_BIT)
                puxStackBuffer pxTaskBuffer = NULL"
  shows "(\<exists>xResult s'. MPU_xTaskCreate xTaskCreate portPRIVILEGE_BIT pvTaskCode pcName
             usStackDepth pvParameters uxPriority s = Some (xResult, None, s')
          \<and> xResult = xReturn \<and> xResult \<noteq> pdPASS
          \<and> xKernelObjectHandlePool s' = xKernelObjectHandlePool s
          \<and> xKernelObjectHandlePool s' ! nat (fst (MPU_GetFreeIndexInHandlePool s)) = NULL) \<and>
         (\<exists>s'. MPU_xTaskCreateStatic xTaskCreateStatic portPRIVILEGE_BIT pxTaskCode pcName'
             ulStackDepth pvParameters' uxPriority' puxStackBuffer pxTaskBuffer s = Some (NULL, s')
          \<and> xKernelObjectHandlePool s' = xKernelObjectHandlePool s
          \<and> xKernelObjectHandlePool s' ! nat (fst (MPU_GetFreeIndexInHandlePool s)) = NULL)"
proof -
  from first_free_exists [OF free] obtain j where
    j: "j < length (xKernelObjectHandlePool s)" "xKernelObjectHandlePool s ! j = NULL"
       "\<forall>k < j. xKernelObjectHandlePool s ! k \<noteq> NULL"
    by blast
  have idx: "nat (fst (MPU_GetFreeIndexInHandlePool s)) = j"
    by (simp add: MPU_GetFreeIndexInHandlePool_free [OF j])
  from MPU_xTaskCreate_free
    [where xTaskCreate = xTaskCreate and portPRIVILEGE_BIT = portPRIVILEGE_BIT
      and pvTaskCode = pvTaskCode and pcName = pcName and usStackDepth = usStackDepth
      and pvParameters = pvParameters and uxPriority = uxPriority, OF j dyn] j(2) idx status
  have a: "\<exists>xResult s'. MPU_xTaskCreate xTaskCreate portPRIVILEGE_BIT pvTaskCode pcName
             usStackDepth pvParameters uxPriority s = Some (xResult, None, s')
          \<and> xResult = xReturn \<and> xResult \<noteq> pdPASS
          \<and> xKernelObjectHandlePool s' = xKernelObjectHandlePool s
          \<and> xKernelObjectHandlePool s' ! nat (fst (MPU_GetFreeIndexInHandlePool s)) = NULL"
    by auto
  from MPU_xTaskCreateStatic_free
    [where xTaskCreateStatic = xTaskCreateStatic
      and portPRIVILEGE_BIT = portPRIVILEGE_BIT and pxTaskCode = pxTaskCode and pcName = pcName'
      and ulStackDepth = ulStackDepth and pvParameters = pvParameters'
      and uxPriority = uxPriority' and puxStackBuffer = puxStackBuffer
      and pxTaskBuffer = pxTaskBuffer, OF j stat] j(2) idx
  have b: "\<exists>s'. MPU_xTaskCreateStatic xTaskCreateStatic portPRIVILEGE_BIT pxTaskCode pcName'
             ulStackDepth pvParameters' uxPriority' puxStackBuffer pxTaskBuffer s = Some (NULL, s')
          \<and> xKernelObjectHandlePool s' = xKernelObjectHandlePool s
          \<and> xKernelObjectHandlePool s' ! nat (fst (MPU_GetFreeIndexInHandlePool s)) = NULL"
    by auto
  from a b show ?thesis by (intro conjI)
qed

theorem failed_creation_rolls_back_slot_witness:
  "NULL \<in> set (xKernelObjectHandlePool
      \<lparr>xKernelObjectHandlePool = [5, NULL, 7, NULL], privileged = False, trace = []\<rparr>) \<and>
   - 1 \<noteq> pdPASS \<and>
   map_option (\<lambda>(xReturn, pxCreatedTask, s'). (xReturn, pxCreatedTask, xKernelObjectHandlePool s'))
     (MPU_xTaskCreate (\<lambda>_ _ _ _ _. (- 1, NULL)) 0x80000000 0 0 128 0 3
        \<lparr>xKernelObjectHandlePool = [5, NULL, 7, NULL], privileged = False, trace = []\<rparr>)
     = Some (- 1, None, [5, NULL, 7, NULL]) \<and>
   map_option (\<lambda>(xExternalTaskHandle, s'). (xExternalTaskHandle, xKernelObjectHandlePool s'))
     (MPU_xTaskCreateStatic (\<lambda>_ _ _ _ _ _ _. NULL) 0x80000000 0 0 128 0 3 0 0
        \<lparr>xKernelObjectHandlePool = [5, NULL, 7, NULL], privileged = False, trace = []\<rparr>)
     = Some (NULL, [5, NULL, 7, NULL])"
  using failed_creation_rolls_back_slot
    [where s = "\<lparr>xKernelObjectHandlePool = [5, NULL, 7, NULL], privileged = False, trace = []\<rparr>"
       and xTaskCreate = "\<lambda>_ _ _ _ _. (- 1, NULL)" and xReturn = "- 1"
       and xTaskCreateStatic = "\<lambda>_ _ _ _ _ _ _. NULL" and portPRIVILEGE_BIT = "0x80000000"
       and pvTaskCode = 0 and pcName = 0 and usStackDepth = 128 and pvParameters = 0
       and uxPriority = 3 and pxTaskCode = 0 and pcName' = 0 and ulStackDepth = 128
       and pvParameters' = 0 and uxPriority' = 3 and puxStackBuffer = 0 and pxTaskBuffer = 0]
  by (simp add: MPU_xTaskCreate_def MPU_xTaskCreateStatic_def adapter_eval)

section \<open>Creation and lookup round trip\<close>

text \<open>
  Claim C5 as stated (every successful creation returns a handle \<open>H\<close> with
  \<open>INDEX_OFFSET \<le> H < capacity + INDEX_OFFSET\<close> that the pool translates back) does not
  hold for every creation adapter: \<^verbatim>\<open>MPU_xStreamBufferGenericCreate\<close> returns the
  kernel's own reference. With four slots and the kernel's reference \<open>0x20000400\<close>, the
  handle returned is \<open>0x20000400\<close>, which is not below \<open>capacity + INDEX_OFFSET\<close>, and
  the pool has no slot for it.
\<close>

theorem MPU_xStreamBufferGenericCreate_returns_raw_reference:
  "MPU_xStreamBufferGenericCreate (\<lambda>_ _ _ _ _. 0x20000400) 64 1 0 NULL NULL
     \<lparr>xKernelObjectHandlePool = [NULL, NULL, NULL, NULL], privileged = False, trace = []\<rparr> =
   Some (0x20000400,
     \<lparr>xKernelObjectHandlePool = [NULL, NULL, NULL, NULL], privileged = False,
      trace = [RaisePrivilege, MemoryBarrier,
               Kernel (K_xStreamBufferGenericCreate 64 1 0 NULL NULL), MemoryBarrier,
               ResetPrivilege, MemoryBarrier]\<rparr>) \<and>
   \<not> sint (0x20000400 :: 32 word) < configPROTECTED_KERNEL_OBJECT_HANDLE_POOL_SIZE
      \<lparr>xKernelObjectHandlePool = [NULL, NULL, NULL, NULL], privileged = False, trace = []\<rparr>
      + INDEX_OFFSET \<and>
   MPU_GetHandleAtIndex (sint (0x20000400 :: 32 word) - INDEX_OFFSET)
     \<lparr>xKernelObjectHandlePool = [NULL, NULL, NULL, NULL], privileged = False,
      trace = [RaisePrivilege, MemoryBarrier,
               Kernel (K_xStreamBufferGenericCreate 64 1 0 NULL NULL), MemoryBarrier,
               ResetPrivilege, MemoryBarrier]\<rparr> = None"
  by (simp add: MPU_xStreamBufferGenericCreate_def MPU_GetHandleAtIndex_def prim_defs)

text \<open>
  Claim C5, amended (round trip): for a creation adapter that reserves a slot of the
  handle pool (\<^verbatim>\<open>MPU_xTaskCreate\<close>, \<^verbatim>\<open>MPU_xTaskCreateStatic\<close> and
  \<^verbatim>\<open>MPU_xQueueGenericCreate\<close> stand for the task, queue, mutex, semaphore, queue set and
  event group creation adapters): if the creation succeeds and hands out the external
  handle \<open>H\<close> (through \<^verbatim>\<open>pxCreatedTask\<close>, or as a non-\<^verbatim>\<open>NULL\<close> result), then
  \<open>INDEX_OFFSET \<le> H < capacity + INDEX_OFFSET\<close> with \<open>INDEX_OFFSET = 1\<close>, the kernel did
  create an object, and the lookup \<^verbatim>\<open>MPU_GetHandleAtIndex( H - INDEX_OFFSET )\<close> in the
  resulting state yields exactly the internal reference of that object. The pool size
  is one that \<^verbatim>\<open>int32_t\<close> index arithmetic can hold (\<open>pool_size_ok\<close>). The stream
  buffer creation adapters \<^verbatim>\<open>MPU_xStreamBufferGenericCreate\<close> and
  \<^verbatim>\<open>MPU_xStreamBufferGenericCreateStatic\<close> do not use the handle pool: they return the
  kernel's reference as it is and bind no slot.
\<close>

theorem created_handle_round_trip:
  assumes ok: "pool_size_ok s"
  shows "(MPU_xTaskCreate xTaskCreate portPRIVILEGE_BIT pvTaskCode pcName usStackDepth
               pvParameters uxPriority s = Some (xReturn, Some H, s')
       \<longrightarrow> INDEX_OFFSET \<le> sint H
       \<and> sint H < configPROTECTED_KERNEL_OBJECT_HANDLE_POOL_SIZE s + INDEX_OFFSET
       \<and> snd (xTaskCreate pvTaskCode pcName usStackDepth pvParameters
                (if privileged s then uxPriority else uxPriority AND NOT portPRIVILEGE_BIT)) \<noteq> NULL
       \<and> MPU_GetHandleAtIndex (sint H - INDEX_OFFSET) s' =
           Some (snd (xTaskCreate pvTaskCode pcName usStackDepth pvParameters
                  (if privileged s then uxPriority else uxPriority AND NOT portPRIVILEGE_BIT)))) \<and>
    (MPU_xTaskCreateStatic xTaskCreateStatic portPRIVILEGE_BIT pxTaskCode pcName' ulStackDepth
        pvParameters' uxPriority' puxStackBuffer pxTaskBuffer s = Some (H', s'') \<and> H' \<noteq> NULL
       \<longrightarrow> INDEX_OFFSET \<le> sint H'
       \<and> sint H' < configPROTECTED_KERNEL_OBJECT_HANDLE_POOL_SIZE s + INDEX_OFFSET
       \<and> xTaskCreateStatic pxTaskCode pcName' ulStackDepth pvParameters'
                (if privileged s then uxPriority' else uxPriority' AND NOT portPRIVILEGE_BIT)
                puxStackBuffer pxTaskBuffer \<noteq> NULL
       \<and> MPU_GetHandleAtIndex (sint H' - INDEX_OFFSET) s'' =
           Some (xTaskCreateStatic pxTaskCode pcName' ulStackDepth pvParameters'
                (if privileged s then uxPriority' else uxPriority' AND NOT portPRIVILEGE_BIT)
                puxStackBuffer pxTaskBuffer)) \<and>
    (MPU_xQueueGenericCreate xQueueGenericCreate uxQueueLength uxItemSize ucQueueType s
        = Some (Hq, sq) \<and> Hq \<noteq> NULL
       \<longrightarrow> INDEX_OFFSET \<le> sint Hq
       \<and> sint Hq < configPROTECTED_KERNEL_OBJECT_HANDLE_POOL_SIZE s + INDEX_OFFSET
       \<and> xQueueGenericCreate uxQueueLength uxItemSize ucQueueType \<noteq> NULL
       \<and> MPU_GetHandleAtIndex (sint Hq - INDEX_OFFSET) sq =
           Some (xQueueGenericCreate uxQueueLength uxItemSize ucQueueType)) \<and>
    (\<exists>s'. MPU_xStreamBufferGenericCreate xStreamBufferGenericCreate xBufferSizeBytes
             xTriggerLevelBytes xIsMessageBuffer NULL NULL s
             = Some (xStreamBufferGenericCreate xBufferSizeBytes xTriggerLevelBytes
                       xIsMessageBuffer NULL NULL, s')
        \<and> xKernelObjectHandlePool s' = xKernelObjectHandlePool s
        \<and> kernel_calls (trace s') = kernel_calls (trace s) @
             [K_xStreamBufferGenericCreate xBufferSizeBytes xTriggerLevelBytes xIsMessageBuffer
                NULL NULL]) \<and>
    (\<exists>s'. MPU_xStreamBufferGenericCreateStatic xStreamBufferGenericCreateStatic
             xBufferSizeBytes' xTriggerLevelBytes' xIsMessageBuffer' pucStreamBufferStorageArea
             pxStaticStreamBuffer NULL NULL s
             = Some (xStreamBufferGenericCreateStatic xBufferSizeBytes' xTriggerLevelBytes'
                       xIsMessageBuffer' pucStreamBufferStorageArea pxStaticStreamBuffer
                       NULL NULL, s')
        \<and> xKernelObjectHandlePool s' = xKernelObjectHandlePool s
        \<and> kernel_calls (trace s') = kernel_calls (trace s) @
             [K_xStreamBufferGenericCreateStatic xBufferSizeBytes' xTriggerLevelBytes'
                xIsMessageBuffer' pucStreamBufferStorageArea pxStaticStreamBuffer NULL NULL])"
proof (intro conjI impI)
  assume res: "MPU_xTaskCreate xTaskCreate portPRIVILEGE_BIT pvTaskCode pcName usStackDepth
               pvParameters uxPriority s = Some (xReturn, Some H, s')"
  have free: "NULL \<in> set (xKernelObjectHandlePool s)"
  proof (rule ccontr)
    assume "NULL \<notin> set (xKernelObjectHandlePool s)"
    from MPU_xTaskCreate_full [OF this, where xTaskCreate = xTaskCreate
        and portPRIVILEGE_BIT = portPRIVILEGE_BIT and pvTaskCode = pvTaskCode and pcName = pcName
        and usStackDepth = usStackDepth and pvParameters = pvParameters
        and uxPriority = uxPriority] res
    show False by auto
  qed
  from first_free_exists [OF free] obtain j where
    j: "j < length (xKernelObjectHandlePool s)" "xKernelObjectHandlePool s ! j = NULL"
       "\<forall>k < j. xKernelObjectHandlePool s ! k \<noteq> NULL"
    by blast
  obtain r h where k: "xTaskCreate pvTaskCode pcName usStackDepth pvParameters
      (if privileged s then uxPriority else uxPriority AND NOT portPRIVILEGE_BIT) = (r, h)"
    by (cases "xTaskCreate pvTaskCode pcName usStackDepth pvParameters
      (if privileged s then uxPriority else uxPriority AND NOT portPRIVILEGE_BIT)")
  from MPU_xTaskCreate_free
    [where xTaskCreate = xTaskCreate and portPRIVILEGE_BIT = portPRIVILEGE_BIT
      and pvTaskCode = pvTaskCode and pcName = pcName and usStackDepth = usStackDepth
      and pvParameters = pvParameters and uxPriority = uxPriority, OF j k] res
  have h: "h \<noteq> NULL" and H: "H = word_of_int (int j + INDEX_OFFSET)"
    and pool': "xKernelObjectHandlePool s' = (xKernelObjectHandlePool s)[j := h]"
    by (auto split: if_splits)
  from ok j(1) have "j < (2::nat) ^ 31 - 1" by (simp add: pool_size_ok_def)
  from sint_external_handle [OF this] H have sH: "sint H = int j + INDEX_OFFSET" by simp
  from j(1) pool' have "MPU_GetHandleAtIndex (int j) s' = Some h"
    by (simp add: MPU_GetHandleAtIndex_def configPROTECTED_KERNEL_OBJECT_HANDLE_POOL_SIZE_def)
  with sH j(1) h k
  show "INDEX_OFFSET \<le> sint H"
    "sint H < configPROTECTED_KERNEL_OBJECT_HANDLE_POOL_SIZE s + INDEX_OFFSET"
    "snd (xTaskCreate pvTaskCode pcName usStackDepth pvParameters
                (if privileged s then uxPriority else uxPriority AND NOT portPRIVILEGE_BIT)) \<noteq> NULL"
    "MPU_GetHandleAtIndex (sint H - INDEX_OFFSET) s' =
           Some (snd (xTaskCreate pvTaskCode pcName usStackDepth pvParameters
                  (if privileged s then uxPriority else uxPriority AND NOT portPRIVILEGE_BIT)))"
    by (simp_all add: configPROTECTED_KERNEL_OBJECT_HANDLE_POOL_SIZE_def)
next
  assume res: "MPU_xTaskCreateStatic xTaskCreateStatic portPRIVILEGE_BIT pxTaskCode pcName'
      ulStackDepth pvParameters' uxPriority' puxStackBuffer pxTaskBuffer s = Some (H', s'') \<and> H' \<noteq> NULL"
  let ?h = "xTaskCreateStatic pxTaskCode pcName' ulStackDepth pvParameters'
                (if privileged s then uxPriority' else uxPriority' AND NOT portPRIVILEGE_BIT)
                puxStackBuffer pxTaskBuffer"
  have free: "NULL \<in> set (xKernelObjectHandlePool s)"
  proof (rule ccontr)
    assume "NULL \<notin> set (xKernelObjectHandlePool s)"
    from MPU_xTaskCreateStatic_full [OF this, where xTaskCreateStatic = xTaskCreateStatic
        and portPRIVILEGE_BIT = portPRIVILEGE_BIT and pxTaskCode = pxTaskCode and pcName = pcName'
        and ulStackDepth = ulStackDepth and pvParameters = pvParameters'
        and uxPriority = uxPriority' and puxStackBuffer = puxStackBuffer
        and pxTaskBuffer = pxTaskBuffer] res
    show False by auto
  qed
  from first_free_exists [OF free] obtain j where
    j: "j < length (xKernelObjectHandlePool s)" "xKernelObjectHandlePool s ! j = NULL"
       "\<forall>k < j. xKernelObjectHandlePool s ! k \<noteq> NULL"
    by blast
  from MPU_xTaskCreateStatic_free
    [where xTaskCreateStatic = xTaskCreateStatic
      and portPRIVILEGE_BIT = portPRIVILEGE_BIT and pxTaskCode = pxTaskCode and pcName = pcName'
      and ulStackDepth = ulStackDepth and pvParameters = pvParameters'
      and uxPriority = uxPriority' and puxStackBuffer = puxStackBuffer
      and pxTaskBuffer = pxTaskBuffer, OF j refl] res
  have h: "?h \<noteq> NULL" and H: "H' = word_of_int (int j + INDEX_OFFSET)"
    and pool': "xKernelObjectHandlePool s'' = (xKernelObjectHandlePool s)[j := ?h]"
    by (auto split: if_splits)
  from ok j(1) have "j < (2::nat) ^ 31 - 1" by (simp add: pool_size_ok_def)
  from sint_external_handle [OF this] H have sH: "sint H' = int j + INDEX_OFFSET" by simp
  from j(1) pool' have "MPU_GetHandleAtIndex (int j) s'' = Some ?h"
    by (simp add: MPU_GetHandleAtIndex_def configPROTECTED_KERNEL_OBJECT_HANDLE_POOL_SIZE_def)
  with sH j(1) h
  show "INDEX_OFFSET \<le> sint H'"
    "sint H' < configPROTECTED_KERNEL_OBJECT_HANDLE_POOL_SIZE s + INDEX_OFFSET"
    "?h \<noteq> NULL"
    "MPU_GetHandleAtIndex (sint H' - INDEX_OFFSET) s'' = Some ?h"
    by (simp_all add: configPROTECTED_KERNEL_OBJECT_HANDLE_POOL_SIZE_def)
next
  assume res: "MPU_xQueueGenericCreate xQueueGenericCreate uxQueueLength uxItemSize ucQueueType s
      = Some (Hq, sq) \<and> Hq \<noteq> NULL"
  let ?h = "xQueueGenericCreate uxQueueLength uxItemSize ucQueueType"
  have free: "NULL \<in> set (xKernelObjectHandlePool s)"
  proof (rule ccontr)
    assume "NULL \<notin> set (xKernelObjectHandlePool s)"
    from MPU_xQueueGenericCreate_full [OF this, where xQueueGenericCreate = xQueueGenericCreate
        and uxQueueLength = uxQueueLength and uxItemSize = uxItemSize
        and ucQueueType = ucQueueType] res
    show False by auto
  qed
  from first_free_exists [OF free] obtain j where
    j: "j < length (xKernelObjectHandlePool s)" "xKernelObjectHandlePool s ! j = NULL"
       "\<forall>k < j. xKernelObjectHandlePool s ! k \<noteq> NULL"
    by blast
  from MPU_xQueueGenericCreate_free
    [where xQueueGenericCreate = xQueueGenericCreate and uxQueueLength = uxQueueLength
      and uxItemSize = uxItemSize and ucQueueType = ucQueueType, OF j refl] res
  have h: "?h \<noteq> NULL" and H: "Hq = word_of_int (int j + INDEX_OFFSET)"
    and pool': "xKernelObjectHandlePool sq = (xKernelObjectHandlePool s)[j := ?h]"
    by (auto split: if_splits)
  from ok j(1) have "j < (2::nat) ^ 31 - 1" by (simp add: pool_size_ok_def)
  from sint_external_handle [OF this] H have sH: "sint Hq = int j + INDEX_OFFSET" by simp
  from j(1) pool' have "MPU_GetHandleAtIndex (int j) sq = Some ?h"
    by (simp add: MPU_GetHandleAtIndex_def configPROTECTED_KERNEL_OBJECT_HANDLE_POOL_SIZE_def)
  with sH j(1) h
  show "INDEX_OFFSET \<le> sint Hq"
    "sint Hq < configPROTECTED_KERNEL_OBJECT_HANDLE_POOL_SIZE s + INDEX_OFFSET"
    "?h \<noteq> NULL"
    "MPU_GetHandleAtIndex (sint Hq - INDEX_OFFSET) sq = Some ?h"
    by (simp_all add: configPROTECTED_KERNEL_OBJECT_HANDLE_POOL_SIZE_def)
next
  show "\<exists>s'. MPU_xStreamBufferGenericCreate xStreamBufferGenericCreate xBufferSizeBytes
             xTriggerLevelBytes xIsMessageBuffer NULL NULL s
             = Some (xStreamBufferGenericCreate xBufferSizeBytes xTriggerLevelBytes
                       xIsMessageBuffer NULL NULL, s')
        \<and> xKernelObjectHandlePool s' = xKernelObjectHandlePool s
        \<and> kernel_calls (trace s') = kernel_calls (trace s) @
             [K_xStreamBufferGenericCreate xBufferSizeBytes xTriggerLevelBytes xIsMessageBuffer
                NULL NULL]"
    by (rule MPU_xStreamBufferGenericCreate_forwards)
next
  show "\<exists>s'. MPU_xStreamBufferGenericCreateStatic xStreamBufferGenericCreateStatic
             xBufferSizeBytes' xTriggerLevelBytes' xIsMessageBuffer' pucStreamBufferStorageArea
             pxStaticStreamBuffer NULL NULL s
             = Some (xStreamBufferGenericCreateStatic xBufferSizeBytes' xTriggerLevelBytes'
                       xIsMessageBuffer' pucStreamBufferStorageArea pxStaticStreamBuffer
                       NULL NULL, s')
        \<and> xKernelObjectHandlePool s' = xKernelObjectHandlePool s
        \<and> kernel_calls (trace s') = kernel_calls (trace s) @
             [K_xStreamBufferGenericCreateStatic xBufferSizeBytes' xTriggerLevelBytes'
                xIsMessageBuffer' pucStreamBufferStorageArea pxStaticStreamBuffer NULL NULL]"
    by (rule MPU_xStreamBufferGenericCreateStatic_forwards)
qed

theorem created_handle_round_trip_witness:
  "pool_size_ok \<lparr>xKernelObjectHandlePool = [5, NULL, 7, NULL], privileged = False, trace = []\<rparr> \<and>
   MPU_xTaskCreate (\<lambda>_ _ _ _ _. (pdPASS, 9)) 0x80000000 0 0 128 0 3
        \<lparr>xKernelObjectHandlePool = [5, NULL, 7, NULL], privileged = False, trace = []\<rparr>
     = Some (pdPASS, Some 2,
        \<lparr>xKernelObjectHandlePool = [5, 9, 7, NULL], privileged = False,
         trace = [RaisePrivilege, MemoryBarrier, MemoryBarrier, SuspendAll, ResumeAll,
                  Kernel (K_xTaskCreate 0 0 128 0 3), MemoryBarrier, ResetPrivilege,
                  MemoryBarrier]\<rparr>) \<and>
   INDEX_OFFSET \<le> sint (2 :: 32 word) \<and>
   sint (2 :: 32 word) < configPROTECTED_KERNEL_OBJECT_HANDLE_POOL_SIZE
      \<lparr>xKernelObjectHandlePool = [5, NULL, 7, NULL], privileged = False, trace = []\<rparr>
      + INDEX_OFFSET \<and>
   MPU_GetHandleAtIndex (sint (2 :: 32 word) - INDEX_OFFSET)
      \<lparr>xKernelObjectHandlePool = [5, 9, 7, NULL], privileged = False,
        trace = [RaisePrivilege, MemoryBarrier, MemoryBarrier, SuspendAll, ResumeAll,
                 Kernel (K_xTaskCreate 0 0 128 0 3), MemoryBarrier, ResetPrivilege,
                 MemoryBarrier]\<rparr> = Some 9 \<and>
   MPU_xTaskCreateStatic (\<lambda>_ _ _ _ _ _ _. 9) 0x80000000 0 0 128 0 3 0 0
        \<lparr>xKernelObjectHandlePool = [5, NULL, 7, NULL], privileged = True, trace = []\<rparr>
     = Some (2,
        \<lparr>xKernelObjectHandlePool = [5, 9, 7, NULL], privileged = True,
         trace = [SuspendAll, ResumeAll, Kernel (K_xTaskCreateStatic 0 0 128 0 3 0 0)]\<rparr>) \<and>
   MPU_GetHandleAtIndex (sint (2 :: 32 word) - INDEX_OFFSET)
      \<lparr>xKernelObjectHandlePool = [5, 9, 7, NULL], privileged = True,
         trace = [SuspendAll, ResumeAll, Kernel (K_xTaskCreateStatic 0 0 128 0 3 0 0)]\<rparr>
     = Some 9 \<and>
   MPU_xQueueGenericCreate (\<lambda>_ _ _. 9) 4 1 0
        \<lparr>xKernelObjectHandlePool = [5, NULL, 7, NULL], privileged = True, trace = []\<rparr>
     = Some (2,
        \<lparr>xKernelObjectHandlePool = [5, 9, 7, NULL], privileged = True,
         trace = [SuspendAll, ResumeAll, Kernel (K_xQueueGenericCreate 4 1 0)]\<rparr>) \<and>
   MPU_GetHandleAtIndex (sint (2 :: 32 word) - INDEX_OFFSET)
      \<lparr>xKernelObjectHandlePool = [5, 9, 7, NULL], privileged = True,
         trace = [SuspendAll, ResumeAll, Kernel (K_xQueueGenericCreate 4 1 0)]\<rparr>
     = Some 9"
  using created_handle_round_trip
    [where s = "\<lparr>xKernelObjectHandlePool = [5, NULL, 7, NULL], privileged = False, trace = []\<rparr>"
       and xTaskCreate = "\<lambda>_ _ _ _ _. (pdPASS, 9)" and xReturn = pdPASS and H = 2
       and s' = "\<lparr>xKernelObjectHandlePool = [5, 9, 7, NULL], privileged = False,
        trace = [RaisePrivilege, MemoryBarrier, MemoryBarrier, SuspendAll, ResumeAll,
                 Kernel (K_xTaskCreate 0 0 128 0 3), MemoryBarrier, ResetPrivilege,
                 MemoryBarrier]\<rparr>"
       and portPRIVILEGE_BIT = "0x80000000"
       and pvTaskCode = 0 and pcName = 0 and usStackDepth = 128 and pvParameters = 0
       and uxPriority = 3]
  by (simp add: MPU_xTaskCreate_def MPU_xTaskCreateStatic_def MPU_xQueueGenericCreate_def
      adapter_eval pool_size_ok_def)

section \<open>The privilege bit of a new task's priority\<close>

text \<open>
  Claim C9 (privilege bit): \<^verbatim>\<open>MPU_xTaskCreate\<close> and \<^verbatim>\<open>MPU_xTaskCreateStatic\<close> always
  return; when a slot is free they forward exactly one call to the kernel's create
  primitive, and the priority of that call is \<open>uxPriority AND NOT portPRIVILEGE_BIT\<close>
  if the caller is unprivileged and \<open>uxPriority\<close> unchanged if it is privileged (with
  no free slot nothing is forwarded). The masked priority has \<^verbatim>\<open>portPRIVILEGE_BIT\<close>
  cleared. The status that \<^verbatim>\<open>MPU_xTaskCreate\<close> returns is the one the kernel gives for
  that priority.
\<close>

theorem create_forwards_priority_without_privilege_bit:
  "(\<exists>xReturn pxCreatedTask s'.
      MPU_xTaskCreate xTaskCreate portPRIVILEGE_BIT pvTaskCode pcName usStackDepth
        pvParameters uxPriority s = Some (xReturn, pxCreatedTask, s') \<and>
      kernel_calls (trace s') = kernel_calls (trace s) @
        (if NULL \<in> set (xKernelObjectHandlePool s) then
           [K_xTaskCreate pvTaskCode pcName usStackDepth pvParameters
              (if portIS_PRIVILEGED s then uxPriority else uxPriority AND NOT portPRIVILEGE_BIT)]
         else []) \<and>
      xReturn = (if NULL \<in> set (xKernelObjectHandlePool s) then
           fst (xTaskCreate pvTaskCode pcName usStackDepth pvParameters
              (if portIS_PRIVILEGED s then uxPriority else uxPriority AND NOT portPRIVILEGE_BIT))
         else pdFAIL)) \<and>
   (\<exists>xExternalTaskHandle s'.
      MPU_xTaskCreateStatic xTaskCreateStatic portPRIVILEGE_BIT pxTaskCode pcName' ulStackDepth
        pvParameters' uxPriority' puxStackBuffer pxTaskBuffer s = Some (xExternalTaskHandle, s') \<and>
      kernel_calls (trace s') = kernel_calls (trace s) @
        (if NULL \<in> set (xKernelObjectHandlePool s) then
           [K_xTaskCreateStatic pxTaskCode pcName' ulStackDepth pvParameters'
              (if portIS_PRIVILEGED s then uxPriority' else uxPriority' AND NOT portPRIVILEGE_BIT)
              puxStackBuffer pxTaskBuffer]
         else [])) \<and>
   (uxPriority AND NOT portPRIVILEGE_BIT) AND portPRIVILEGE_BIT = 0"
proof -
  have c3: "(uxPriority AND NOT portPRIVILEGE_BIT) AND portPRIVILEGE_BIT = 0"
    by (simp add: and.assoc)
  have c1: "\<exists>xReturn pxCreatedTask s'.
      MPU_xTaskCreate xTaskCreate portPRIVILEGE_BIT pvTaskCode pcName usStackDepth
        pvParameters uxPriority s = Some (xReturn, pxCreatedTask, s') \<and>
      kernel_calls (trace s') = kernel_calls (trace s) @
        (if NULL \<in> set (xKernelObjectHandlePool s) then
           [K_xTaskCreate pvTaskCode pcName usStackDepth pvParameters
              (if portIS_PRIVILEGED s then uxPriority else uxPriority AND NOT portPRIVILEGE_BIT)]
         else []) \<and>
      xReturn = (if NULL \<in> set (xKernelObjectHandlePool s) then
           fst (xTaskCreate pvTaskCode pcName usStackDepth pvParameters
              (if portIS_PRIVILEGED s then uxPriority else uxPriority AND NOT portPRIVILEGE_BIT))
         else pdFAIL)"
  proof (cases "NULL \<in> set (xKernelObjectHandlePool s)")
    case True
    from first_free_exists [OF True] obtain j where
      j: "j < length (xKernelObjectHandlePool s)" "xKernelObjectHandlePool s ! j = NULL"
         "\<forall>k < j. xKernelObjectHandlePool s ! k \<noteq> NULL"
      by blast
    obtain r h where k: "xTaskCreate pvTaskCode pcName usStackDepth pvParameters
        (if privileged s then uxPriority else uxPriority AND NOT portPRIVILEGE_BIT) = (r, h)"
      by (cases "xTaskCreate pvTaskCode pcName usStackDepth pvParameters
        (if privileged s then uxPriority else uxPriority AND NOT portPRIVILEGE_BIT)")
    from MPU_xTaskCreate_free
      [where xTaskCreate = xTaskCreate and portPRIVILEGE_BIT = portPRIVILEGE_BIT
        and pvTaskCode = pvTaskCode and pcName = pcName and usStackDepth = usStackDepth
        and pvParameters = pvParameters and uxPriority = uxPriority, OF j k]
    obtain s' where "MPU_xTaskCreate xTaskCreate portPRIVILEGE_BIT pvTaskCode pcName usStackDepth
        pvParameters uxPriority s =
          Some (r, (if h \<noteq> NULL then Some (word_of_int (int j + INDEX_OFFSET)) else None), s')"
      "kernel_calls (trace s') = kernel_calls (trace s) @
          [K_xTaskCreate pvTaskCode pcName usStackDepth pvParameters
            (if privileged s then uxPriority else uxPriority AND NOT portPRIVILEGE_BIT)]"
      by blast
    with True k show ?thesis
      by (simp add: portIS_PRIVILEGED_def)
  next
    case False
    from MPU_xTaskCreate_full [OF False, where xTaskCreate = xTaskCreate
        and portPRIVILEGE_BIT = portPRIVILEGE_BIT and pvTaskCode = pvTaskCode and pcName = pcName
        and usStackDepth = usStackDepth and pvParameters = pvParameters
        and uxPriority = uxPriority] False
    show ?thesis by auto
  qed
  have c2: "\<exists>xExternalTaskHandle s'.
      MPU_xTaskCreateStatic xTaskCreateStatic portPRIVILEGE_BIT pxTaskCode pcName' ulStackDepth
        pvParameters' uxPriority' puxStackBuffer pxTaskBuffer s = Some (xExternalTaskHandle, s') \<and>
      kernel_calls (trace s') = kernel_calls (trace s) @
        (if NULL \<in> set (xKernelObjectHandlePool s) then
           [K_xTaskCreateStatic pxTaskCode pcName' ulStackDepth pvParameters'
              (if portIS_PRIVILEGED s then uxPriority' else uxPriority' AND NOT portPRIVILEGE_BIT)
              puxStackBuffer pxTaskBuffer]
         else [])"
  proof (cases "NULL \<in> set (xKernelObjectHandlePool s)")
    case True
    from first_free_exists [OF True] obtain j where
      j: "j < length (xKernelObjectHandlePool s)" "xKernelObjectHandlePool s ! j = NULL"
         "\<forall>k < j. xKernelObjectHandlePool s ! k \<noteq> NULL"
      by blast
    from MPU_xTaskCreateStatic_free
      [where xTaskCreateStatic = xTaskCreateStatic
        and portPRIVILEGE_BIT = portPRIVILEGE_BIT and pxTaskCode = pxTaskCode and pcName = pcName'
        and ulStackDepth = ulStackDepth and pvParameters = pvParameters'
        and uxPriority = uxPriority' and puxStackBuffer = puxStackBuffer
        and pxTaskBuffer = pxTaskBuffer, OF j refl]
    obtain H s' where "MPU_xTaskCreateStatic xTaskCreateStatic portPRIVILEGE_BIT pxTaskCode pcName'
        ulStackDepth pvParameters' uxPriority' puxStackBuffer pxTaskBuffer s = Some (H, s')"
      "kernel_calls (trace s') = kernel_calls (trace s) @
          [K_xTaskCreateStatic pxTaskCode pcName' ulStackDepth pvParameters'
            (if privileged s then uxPriority' else uxPriority' AND NOT portPRIVILEGE_BIT)
            puxStackBuffer pxTaskBuffer]"
      by blast
    with True show ?thesis
      by (simp add: portIS_PRIVILEGED_def)
  next
    case False
    from MPU_xTaskCreateStatic_full [OF False, where xTaskCreateStatic = xTaskCreateStatic
        and portPRIVILEGE_BIT = portPRIVILEGE_BIT and pxTaskCode = pxTaskCode and pcName = pcName'
        and ulStackDepth = ulStackDepth and pvParameters = pvParameters'
        and uxPriority = uxPriority' and puxStackBuffer = puxStackBuffer
        and pxTaskBuffer = pxTaskBuffer] False
    show ?thesis by auto
  qed
  from c1 c2 c3 show ?thesis by (intro conjI)
qed

theorem create_forwards_priority_without_privilege_bit_witness:
  "map_option (\<lambda>(xReturn, pxCreatedTask, s'). (xReturn, pxCreatedTask, kernel_calls (trace s')))
     (MPU_xTaskCreate (\<lambda>_ _ _ _ _. (pdPASS, 9)) 0x80000000 0 0 128 0 0x80000003
        \<lparr>xKernelObjectHandlePool = [5, NULL, 7, NULL], privileged = False, trace = []\<rparr>)
     = Some (pdPASS, Some 2, [K_xTaskCreate 0 0 128 0 3]) \<and>
   map_option (\<lambda>(xReturn, pxCreatedTask, s'). (xReturn, pxCreatedTask, kernel_calls (trace s')))
     (MPU_xTaskCreate (\<lambda>_ _ _ _ _. (pdPASS, 9)) 0x80000000 0 0 128 0 0x80000003
        \<lparr>xKernelObjectHandlePool = [5, NULL, 7, NULL], privileged = True, trace = []\<rparr>)
     = Some (pdPASS, Some 2, [K_xTaskCreate 0 0 128 0 0x80000003])"
  using create_forwards_priority_without_privilege_bit
    [where s = "\<lparr>xKernelObjectHandlePool = [5, NULL, 7, NULL], privileged = False, trace = []\<rparr>"
       and xTaskCreate = "\<lambda>_ _ _ _ _. (pdPASS, 9)" and portPRIVILEGE_BIT = "0x80000000"
       and pvTaskCode = 0 and pcName = 0 and usStackDepth = 128 and pvParameters = 0
       and uxPriority = "0x80000003"]
  by (simp add: MPU_xTaskCreate_def adapter_eval)

section \<open>Lowest free slot first, and reuse after deletion\<close>

lemma MPU_xTaskCreate_succeeds_at:
  assumes j: "j < length (xKernelObjectHandlePool s)" "xKernelObjectHandlePool s ! j = NULL"
    "NULL \<notin> set (take j (xKernelObjectHandlePool s))"
    and h: "h \<noteq> NULL"
  shows "\<exists>s'. MPU_xTaskCreate (\<lambda>_ _ _ _ _. (pdPASS, h)) portPRIVILEGE_BIT pvTaskCode pcName
             usStackDepth pvParameters uxPriority s
           = Some (pdPASS, Some (word_of_int (int j + INDEX_OFFSET)), s')
        \<and> xKernelObjectHandlePool s' = (xKernelObjectHandlePool s)[j := h]
        \<and> privileged s' = privileged s"
proof -
  have before: "\<forall>k < j. xKernelObjectHandlePool s ! k \<noteq> NULL"
  proof (intro allI impI)
    fix k assume "k < j"
    with j(1) have "take j (xKernelObjectHandlePool s) ! k \<in> set (take j (xKernelObjectHandlePool s))"
      by (intro nth_mem) simp
    with \<open>k < j\<close> j(3) show "xKernelObjectHandlePool s ! k \<noteq> NULL"
      by auto
  qed
  from MPU_xTaskCreate_free
    [where xTaskCreate = "\<lambda>_ _ _ _ _. (pdPASS, h)" and portPRIVILEGE_BIT = portPRIVILEGE_BIT
      and pvTaskCode = pvTaskCode and pcName = pcName and usStackDepth = usStackDepth
      and pvParameters = pvParameters and uxPriority = uxPriority, OF j(1,2) before refl] h
  show ?thesis by auto
qed

text \<open>
  Claim C4 (lowest free slot, reuse): \<^verbatim>\<open>MPU_GetFreeIndexInHandlePool\<close> returns the
  index of the lowest \<^verbatim>\<open>NULL\<close> slot and overwrites that slot with the non-\<^verbatim>\<open>NULL\<close>
  marker \<^verbatim>\<open>~0\<close>, and it returns \<open>-1\<close>, changing nothing, exactly when no slot is
  \<^verbatim>\<open>NULL\<close>. Consequently, in a pool of four free slots, creating the tasks with
  (non-\<^verbatim>\<open>NULL\<close>) internal references \<open>a\<close>, \<open>b\<close>, \<open>c\<close>, \<open>d\<close> hands out the handles
  1, 2, 3, 4 in this order; deleting handle 2 frees slot 1; the next creation hands out
  handle 2 again; and one more creation fails with \<^verbatim>\<open>pdFAIL\<close> and leaves the slots
  as they are.
\<close>

theorem reservation_claims_lowest_free_slot:
  assumes handles: "a \<noteq> NULL" "b \<noteq> NULL" "c \<noteq> NULL" "d \<noteq> NULL" "e \<noteq> NULL"
  shows
   "(case MPU_GetFreeIndexInHandlePool s of
       (lFreeIndex, s') \<Rightarrow>
         if NULL \<in> set (xKernelObjectHandlePool s) then
           0 \<le> lFreeIndex \<and> lFreeIndex < configPROTECTED_KERNEL_OBJECT_HANDLE_POOL_SIZE s \<and>
           xKernelObjectHandlePool s ! nat lFreeIndex = NULL \<and>
           (\<forall>k < nat lFreeIndex. xKernelObjectHandlePool s ! k \<noteq> NULL) \<and>
           xKernelObjectHandlePool s' = (xKernelObjectHandlePool s)[nat lFreeIndex := - 1] \<and>
           xKernelObjectHandlePool s' ! nat lFreeIndex \<noteq> NULL
         else lFreeIndex = - 1 \<and> xKernelObjectHandlePool s' = xKernelObjectHandlePool s) \<and>
    (\<exists>s1 s2 s3 s4 s5 s6 s7.
       MPU_xTaskCreate (\<lambda>_ _ _ _ _. (pdPASS, a)) portPRIVILEGE_BIT pvTaskCode pcName usStackDepth
         pvParameters uxPriority
         \<lparr>xKernelObjectHandlePool = [NULL, NULL, NULL, NULL], privileged = p, trace = tr\<rparr>
         = Some (pdPASS, Some 1, s1) \<and>
       MPU_xTaskCreate (\<lambda>_ _ _ _ _. (pdPASS, b)) portPRIVILEGE_BIT pvTaskCode pcName usStackDepth
         pvParameters uxPriority s1 = Some (pdPASS, Some 2, s2) \<and>
       MPU_xTaskCreate (\<lambda>_ _ _ _ _. (pdPASS, c)) portPRIVILEGE_BIT pvTaskCode pcName usStackDepth
         pvParameters uxPriority s2 = Some (pdPASS, Some 3, s3) \<and>
       MPU_xTaskCreate (\<lambda>_ _ _ _ _. (pdPASS, d)) portPRIVILEGE_BIT pvTaskCode pcName usStackDepth
         pvParameters uxPriority s3 = Some (pdPASS, Some 4, s4) \<and>
       xKernelObjectHandlePool s4 = [a, b, c, d] \<and>
       MPU_vTaskDelete 2 s4 = Some s5 \<and>
       xKernelObjectHandlePool s5 = [a, NULL, c, d] \<and>
       MPU_xTaskCreate (\<lambda>_ _ _ _ _. (pdPASS, e)) portPRIVILEGE_BIT pvTaskCode pcName usStackDepth
         pvParameters uxPriority s5 = Some (pdPASS, Some 2, s6) \<and>
       xKernelObjectHandlePool s6 = [a, e, c, d] \<and>
       MPU_xTaskCreate (\<lambda>_ _ _ _ _. (pdPASS, f)) portPRIVILEGE_BIT pvTaskCode pcName usStackDepth
         pvParameters uxPriority s6 = Some (pdFAIL, None, s7) \<and>
       xKernelObjectHandlePool s7 = [a, e, c, d])"
proof -
  have general: "(case MPU_GetFreeIndexInHandlePool s of
       (lFreeIndex, s') \<Rightarrow>
         if NULL \<in> set (xKernelObjectHandlePool s) then
           0 \<le> lFreeIndex \<and> lFreeIndex < configPROTECTED_KERNEL_OBJECT_HANDLE_POOL_SIZE s \<and>
           xKernelObjectHandlePool s ! nat lFreeIndex = NULL \<and>
           (\<forall>k < nat lFreeIndex. xKernelObjectHandlePool s ! k \<noteq> NULL) \<and>
           xKernelObjectHandlePool s' = (xKernelObjectHandlePool s)[nat lFreeIndex := - 1] \<and>
           xKernelObjectHandlePool s' ! nat lFreeIndex \<noteq> NULL
         else lFreeIndex = - 1 \<and> xKernelObjectHandlePool s' = xKernelObjectHandlePool s)"
  proof (cases "NULL \<in> set (xKernelObjectHandlePool s)")
    case True
    from first_free_exists [OF True] obtain j where
      j: "j < length (xKernelObjectHandlePool s)" "xKernelObjectHandlePool s ! j = NULL"
         "\<forall>k < j. xKernelObjectHandlePool s ! k \<noteq> NULL"
      by blast
    from True j show ?thesis
      by (simp add: MPU_GetFreeIndexInHandlePool_free [OF j] prim_defs)
  next
    case False
    then show ?thesis
      by (simp add: MPU_GetFreeIndexInHandlePool_full prim_defs)
  qed
  let ?create = "\<lambda>h. MPU_xTaskCreate (\<lambda>_ _ _ _ _. (pdPASS, h)) portPRIVILEGE_BIT pvTaskCode pcName
      usStackDepth pvParameters uxPriority"
  let ?s0 = "\<lparr>xKernelObjectHandlePool = [NULL, NULL, NULL, NULL], privileged = p, trace = tr\<rparr>"
  from MPU_xTaskCreate_succeeds_at [where j = 0 and s = ?s0 and h = a] handles
  obtain s1 where s1: "?create a ?s0 = Some (pdPASS, Some 1, s1)"
    "xKernelObjectHandlePool s1 = [a, NULL, NULL, NULL]"
    by fastforce
  from MPU_xTaskCreate_succeeds_at [where j = 1 and s = s1 and h = b] handles s1(2)
  obtain s2 where s2: "?create b s1 = Some (pdPASS, Some 2, s2)"
    "xKernelObjectHandlePool s2 = [a, b, NULL, NULL]"
    by fastforce
  from MPU_xTaskCreate_succeeds_at [where j = 2 and s = s2 and h = c] handles s2(2)
  obtain s3 where s3: "?create c s2 = Some (pdPASS, Some 3, s3)"
    "xKernelObjectHandlePool s3 = [a, b, c, NULL]"
    by fastforce
  from MPU_xTaskCreate_succeeds_at [where j = 3 and s = s3 and h = d] handles s3(2)
  obtain s4 where s4: "?create d s3 = Some (pdPASS, Some 4, s4)"
    "xKernelObjectHandlePool s4 = [a, b, c, d]"
    by fastforce
  from MPU_vTaskDelete_in_range [where h = 2 and s = s4] s4(2)
  obtain s5 where s5: "MPU_vTaskDelete 2 s4 = Some s5"
    "xKernelObjectHandlePool s5 = [a, NULL, c, d]"
    by (fastforce simp: configPROTECTED_KERNEL_OBJECT_HANDLE_POOL_SIZE_def)
  from MPU_xTaskCreate_succeeds_at [where j = 1 and s = s5 and h = e] handles s5(2)
  obtain s6 where s6: "?create e s5 = Some (pdPASS, Some 2, s6)"
    "xKernelObjectHandlePool s6 = [a, e, c, d]"
    by fastforce
  from handles s6(2) have "NULL \<notin> set (xKernelObjectHandlePool s6)" by auto
  from MPU_xTaskCreate_full [OF this, where xTaskCreate = "\<lambda>_ _ _ _ _. (pdPASS, f)"
      and portPRIVILEGE_BIT = portPRIVILEGE_BIT and pvTaskCode = pvTaskCode and pcName = pcName
      and usStackDepth = usStackDepth and pvParameters = pvParameters
      and uxPriority = uxPriority] s6(2)
  obtain s7 where s7: "?create f s6 = Some (pdFAIL, None, s7)"
    "xKernelObjectHandlePool s7 = [a, e, c, d]"
    by auto
  from s1(1) s2(1) s3(1) s4 s5 s6 s7 have scenario: "\<exists>s1 s2 s3 s4 s5 s6 s7.
       ?create a ?s0 = Some (pdPASS, Some 1, s1) \<and>
       ?create b s1 = Some (pdPASS, Some 2, s2) \<and>
       ?create c s2 = Some (pdPASS, Some 3, s3) \<and>
       ?create d s3 = Some (pdPASS, Some 4, s4) \<and>
       xKernelObjectHandlePool s4 = [a, b, c, d] \<and>
       MPU_vTaskDelete 2 s4 = Some s5 \<and>
       xKernelObjectHandlePool s5 = [a, NULL, c, d] \<and>
       ?create e s5 = Some (pdPASS, Some 2, s6) \<and>
       xKernelObjectHandlePool s6 = [a, e, c, d] \<and>
       ?create f s6 = Some (pdFAIL, None, s7) \<and>
       xKernelObjectHandlePool s7 = [a, e, c, d]"
    by blast
  from general scenario show ?thesis by (intro conjI)
qed

theorem reservation_claims_lowest_free_slot_witness:
  "(10 :: 32 word) \<noteq> NULL \<and> (20 :: 32 word) \<noteq> NULL \<and> (30 :: 32 word) \<noteq> NULL \<and>
   (40 :: 32 word) \<noteq> NULL \<and> (50 :: 32 word) \<noteq> NULL \<and>
   MPU_GetFreeIndexInHandlePool
     \<lparr>xKernelObjectHandlePool = [10, NULL, 30, NULL], privileged = True, trace = []\<rparr> =
     (1, \<lparr>xKernelObjectHandlePool = [10, - 1, 30, NULL], privileged = True,
          trace = [SuspendAll, ResumeAll]\<rparr>) \<and>
   (\<exists>s1 s2 s3 s4 s5 s6 s7.
       MPU_xTaskCreate (\<lambda>_ _ _ _ _. (pdPASS, 10)) 0x80000000 0 0 128 0 3
         \<lparr>xKernelObjectHandlePool = [NULL, NULL, NULL, NULL], privileged = False, trace = []\<rparr>
         = Some (pdPASS, Some 1, s1) \<and>
       MPU_xTaskCreate (\<lambda>_ _ _ _ _. (pdPASS, 20)) 0x80000000 0 0 128 0 3 s1
         = Some (pdPASS, Some 2, s2) \<and>
       MPU_xTaskCreate (\<lambda>_ _ _ _ _. (pdPASS, 30)) 0x80000000 0 0 128 0 3 s2
         = Some (pdPASS, Some 3, s3) \<and>
       MPU_xTaskCreate (\<lambda>_ _ _ _ _. (pdPASS, 40)) 0x80000000 0 0 128 0 3 s3
         = Some (pdPASS, Some 4, s4) \<and>
       xKernelObjectHandlePool s4 = [10, 20, 30, 40] \<and>
       MPU_vTaskDelete 2 s4 = Some s5 \<and>
       xKernelObjectHandlePool s5 = [10, NULL, 30, 40] \<and>
       MPU_xTaskCreate (\<lambda>_ _ _ _ _. (pdPASS, 50)) 0x80000000 0 0 128 0 3 s5
         = Some (pdPASS, Some 2, s6) \<and>
       xKernelObjectHandlePool s6 = [10, 50, 30, 40] \<and>
       MPU_xTaskCreate (\<lambda>_ _ _ _ _. (pdPASS, 60)) 0x80000000 0 0 128 0 3 s6
         = Some (pdFAIL, None, s7) \<and>
       xKernelObjectHandlePool s7 = [10, 50, 30, 40])"
proof -
  have h: "(10 :: 32 word) \<noteq> NULL" "(20 :: 32 word) \<noteq> NULL" "(30 :: 32 word) \<noteq> NULL"
    "(40 :: 32 word) \<noteq> NULL" "(50 :: 32 word) \<noteq> NULL"
    by simp_all
  have r: "MPU_GetFreeIndexInHandlePool
     \<lparr>xKernelObjectHandlePool = [10, NULL, 30, NULL], privileged = True, trace = []\<rparr> =
     (1, \<lparr>xKernelObjectHandlePool = [10, - 1, 30, NULL], privileged = True,
          trace = [SuspendAll, ResumeAll]\<rparr>)"
    by (simp add: adapter_eval)
  from reservation_claims_lowest_free_slot [OF h, where p = False and tr = "[]"
      and portPRIVILEGE_BIT = "0x80000000" and pvTaskCode = 0 and pcName = 0
      and usStackDepth = 128 and pvParameters = 0 and uxPriority = 3 and f = 60] h r
  show ?thesis by blast
qed

section \<open>The NULL task handle\<close>

text \<open>
  Claim C7 as stated (every task adapter accepting a task handle forwards a \<^verbatim>\<open>NULL\<close>
  handle to the kernel primitive instead of rejecting it by the range check) does not
  hold: \<^verbatim>\<open>MPU_xTaskGenericNotify\<close> has no \<^verbatim>\<open>NULL\<close> test. Called with \<^verbatim>\<open>NULL\<close> it
  range-checks the handle, returns \<^verbatim>\<open>pdFAIL\<close> and forwards nothing.
\<close>

theorem MPU_xTaskGenericNotify_rejects_NULL:
  "MPU_xTaskGenericNotify (\<lambda>_ _ _ _ _. pdPASS) NULL 0 0 1 NULL
     \<lparr>xKernelObjectHandlePool = [10, 20, 30, 40], privileged = True, trace = []\<rparr> =
   Some (pdFAIL, \<lparr>xKernelObjectHandlePool = [10, 20, 30, 40], privileged = True, trace = []\<rparr>)"
  by (simp add: MPU_xTaskGenericNotify_def prim_defs)

text \<open>
  Claim C7, amended (null-handle convention): a task adapter that tests its task handle
  against \<^verbatim>\<open>NULL\<close> before the range check (\<^verbatim>\<open>MPU_vTaskAllocateMPURegions\<close>,
  \<^verbatim>\<open>MPU_vTaskDelete\<close>, \<^verbatim>\<open>MPU_xTaskAbortDelay\<close> and \<^verbatim>\<open>MPU_uxTaskPriorityGet\<close> stand for
  these adapters) does not range-check and does not translate a \<^verbatim>\<open>NULL\<close> handle: it
  forwards it as \<^verbatim>\<open>NULL\<close> to the kernel primitive and returns the kernel's result, in
  every state (whatever the pool holds and whatever the privilege level), and leaves
  the pool as it is. The four task adapters without a \<^verbatim>\<open>NULL\<close> test,
  \<^verbatim>\<open>MPU_xTaskGenericNotify\<close>, \<^verbatim>\<open>MPU_xTaskGenericNotifyFromISR\<close>,
  \<^verbatim>\<open>MPU_vTaskGenericNotifyGiveFromISR\<close> and \<^verbatim>\<open>MPU_xTaskResumeFromISR\<close>, range-check
  \<^verbatim>\<open>NULL\<close> like any other handle: nothing is forwarded to the kernel, the pool is left
  as it is, and those with a result return \<^verbatim>\<open>pdFAIL\<close>.
\<close>

theorem null_task_handle_is_forwarded:
  "(\<exists>s'. MPU_vTaskAllocateMPURegions NULL xRegions s = Some s'
      \<and> xKernelObjectHandlePool s' = xKernelObjectHandlePool s
      \<and> kernel_calls (trace s') = kernel_calls (trace s) @ [K_vTaskAllocateMPURegions NULL xRegions]) \<and>
   (\<exists>s'. MPU_vTaskDelete NULL s = Some s'
      \<and> xKernelObjectHandlePool s' = xKernelObjectHandlePool s
      \<and> kernel_calls (trace s') = kernel_calls (trace s) @ [K_vTaskDelete NULL]) \<and>
   (\<exists>s'. MPU_xTaskAbortDelay xTaskAbortDelay NULL s = Some (xTaskAbortDelay NULL, s')
      \<and> xKernelObjectHandlePool s' = xKernelObjectHandlePool s
      \<and> kernel_calls (trace s') = kernel_calls (trace s) @ [K_xTaskAbortDelay NULL]) \<and>
   (\<exists>s'. MPU_uxTaskPriorityGet uxTaskPriorityGet NULL s = Some (Some (uxTaskPriorityGet NULL), s')
      \<and> xKernelObjectHandlePool s' = xKernelObjectHandlePool s
      \<and> kernel_calls (trace s') = kernel_calls (trace s) @ [K_uxTaskPriorityGet NULL]) \<and>
   (\<exists>s'. MPU_xTaskGenericNotify xTaskGenericNotify NULL uxIndexToNotify ulValue eAction
             pulPreviousNotificationValue s = Some (pdFAIL, s')
      \<and> xKernelObjectHandlePool s' = xKernelObjectHandlePool s
      \<and> kernel_calls (trace s') = kernel_calls (trace s)) \<and>
   (\<exists>s'. MPU_xTaskGenericNotifyFromISR xTaskGenericNotifyFromISR NULL uxIndexToNotify ulValue
             eAction pulPreviousNotificationValue pxHigherPriorityTaskWoken s = Some (pdFAIL, s')
      \<and> xKernelObjectHandlePool s' = xKernelObjectHandlePool s
      \<and> kernel_calls (trace s') = kernel_calls (trace s)) \<and>
   (\<exists>s'. MPU_vTaskGenericNotifyGiveFromISR NULL uxIndexToNotify pxHigherPriorityTaskWoken s
             = Some s'
      \<and> xKernelObjectHandlePool s' = xKernelObjectHandlePool s
      \<and> kernel_calls (trace s') = kernel_calls (trace s)) \<and>
   (\<exists>s'. MPU_xTaskResumeFromISR xTaskResumeFromISR NULL s = Some (pdFAIL, s')
      \<and> xKernelObjectHandlePool s' = xKernelObjectHandlePool s
      \<and> kernel_calls (trace s') = kernel_calls (trace s))"
  by (simp add: MPU_vTaskAllocateMPURegions_def MPU_vTaskDelete_def MPU_xTaskAbortDelay_def
      MPU_uxTaskPriorityGet_def MPU_xTaskGenericNotify_def MPU_xTaskGenericNotifyFromISR_def
      MPU_vTaskGenericNotifyGiveFromISR_def MPU_xTaskResumeFromISR_def prim_defs Let_def)

section \<open>Handles outside the pool's range\<close>




section \<open>Translating a kernel reference back to an external handle\<close>






end
